theory Spec2Isabelle
  imports Main "HOL-Library.Word"
begin

section \<open>The Windows container lifecycle of libcontainerd\<close>

text \<open>
  This theory embeds \<^verbatim>\<open>libcontainerd/container_windows.go\<close>: the method \<^verbatim>\<open>start\<close>, which
  brings up a compute system and its init process, and the method \<^verbatim>\<open>waitExit\<close>, the
  monitor that tears the compute system down and tells the backend.

  Both methods are sequences of calls into collaborators (the host compute service
  \<^verbatim>\<open>hcsshim\<close>, the backend, the registry of the client, the restart manager). The model
  records every such call, in order, as an \<open>event\<close> of a trace, and takes what each call
  answers from an environment record. Calls to \<^verbatim>\<open>logrus\<close> at the levels Warn and Error are
  events too; its Debug output is not recorded.
\<close>

subsection \<open>Errors\<close>

text \<open>
  A Go \<^verbatim>\<open>error\<close> is either a \<^verbatim>\<open>*hcsshim.HcsError\<close>, whose field \<^verbatim>\<open>Err\<close> the code compares
  with four named error codes, or any other error value. The four codes are distinct
  Windows error numbers; they are kept symbolic. A nil error is \<open>None\<close>.
\<close>

datatype errno =
    ERROR_SHUTDOWN_IN_PROGRESS
  | ErrorBadPathname
  | ERROR_PATH_NOT_FOUND
  | ERROR_BROKEN_PIPE
  | Errno nat

datatype error = HcsError errno | OtherError string

subsection \<open>Data model\<close>

text \<open>
  The timeout argument of the host calls is a number of milliseconds or the constant
  \<^verbatim>\<open>hcsshim.TimeoutInfinite\<close>, which is kept symbolic.
\<close>

datatype timeout = Timeout "32 word" | TimeoutInfinite

datatype CreateOption = ServicingOption (IsServicing: bool) | OtherOption string

record Process =
  Terminal :: bool
  Cwd :: string
  InitialConsoleSize :: "nat \<times> nat"
  Env :: "string list"
  Args :: "string list"

record Spec =
  Process :: Process

record CreateProcessParams =
  EmulateConsole :: bool
  WorkingDirectory :: string
  ConsoleSize :: "nat \<times> nat"
  Environment :: "(string \<times> string) list"
  CommandLine :: string

text \<open>Stream ends are handles of the host; \<^verbatim>\<open>openReaderFromPipe\<close> wraps a read end.\<close>

type_synonym handle = nat

datatype reader = openReaderFromPipe handle

record IOPipe =
  Stdin :: "handle option"
  Stdout :: "reader option"
  Stderr :: "reader option"
  IOPipe_Terminal :: bool

datatype state = StateStart | StateExit | StateExitProcess | StateRestart

text \<open>\<^verbatim>\<open>StateInfo\<close> with its embedded \<^verbatim>\<open>CommonStateInfo\<close> flattened.\<close>

record StateInfo =
  State :: state
  ExitCode :: "32 word"
  Pid :: "32 word"
  ProcessID :: string
  UpdatePending :: bool

text \<open>
  The restart manager answers \<^verbatim>\<open>ShouldRestart(exitCode, hasBeenManuallyStopped, duration)\<close>
  with the decision, the channel and an error. The channel is modelled by the one value
  it yields: \<open>None\<close> for nil, \<open>Some e\<close> for an error.
\<close>

type_synonym chan = "error option"

record RestartManager =
  ShouldRestart :: "32 word \<Rightarrow> bool \<Rightarrow> int \<Rightarrow> bool \<times> chan \<times> error option"

text \<open>
  The struct \<^verbatim>\<open>container\<close> with the fields of the embedded \<^verbatim>\<open>containerCommon\<close> that the
  two methods read or write. A nil \<^verbatim>\<open>restartManager\<close> is \<open>None\<close>. Times are integers
  (nanoseconds), as \<^verbatim>\<open>time.Duration\<close> is.
\<close>

record container =
  containerID :: string
  friendlyName :: string
  restartManager :: "RestartManager option"
  restarting :: bool
  startedAt :: int
  systemPid :: "32 word"
  options :: "CreateOption list"
  ociSpec :: Spec
  manualStopRequested :: bool

subsection \<open>Events\<close>

datatype level = Warn | Error

datatype event =
    StartComputeSystem string
  | is_Shutdown: ShutdownComputeSystem string (timeout_of: timeout) string
  | is_Terminate: TerminateComputeSystem string (timeout_of: timeout) string
  | is_CreateProcess: CreateProcessInComputeSystem string bool bool bool CreateProcessParams
  | WaitForProcessInComputeSystem string "32 word" timeout
  | GetComputeSystemProperties string "32 word"
  | is_ShouldRestart: Call_ShouldRestart "32 word" bool int
  | is_Receive: Receive_wait chan
  | appendContainer string
  | is_delete: deleteContainer string
  | is_AttachStreams: AttachStreams string IOPipe
  | is_StateChanged: StateChanged string (info: StateInfo)
  | is_Create: Create string Spec "CreateOption list"
  | is_Go_waitExit: Go_waitExit "32 word" string bool
  | Go_func
  | is_Log: Log level

subsection \<open>\<^verbatim>\<open>start\<close>\<close>

text \<open>
  What the package declares outside this file and \<^verbatim>\<open>start\<close> uses: the constant
  \<^verbatim>\<open>InitFriendlyName\<close> and the function \<^verbatim>\<open>setupEnvironmentVariables\<close>. They are
  parameters of the model.
\<close>

record package =
  InitFriendlyName :: string
  setupEnvironmentVariables :: "string list \<Rightarrow> (string \<times> string) list"

text \<open>
  What the collaborators answer during one call of \<^verbatim>\<open>start\<close>: the error of each host and
  backend call, the values \<^verbatim>\<open>CreateProcessInComputeSystem\<close> returns, and the clock.
\<close>

record start_env =
  startComputeSystem_err :: "error option"
  shutdown_err :: "error option"
  terminate_err :: "error option"
  create_pid :: "32 word"
  create_stdin :: "handle option"
  create_stdout :: "handle option"
  create_stderr :: "handle option"
  create_err :: "error option"
  time_Now :: int
  attachStreams_err :: "error option"
  stateChanged_err :: "error option"

text \<open>
  The outcome of \<^verbatim>\<open>start\<close>: the error it returns, the container as it leaves it, the
  calls it made, and the \<^verbatim>\<open>IOPipe\<close> it allocated, if it came to line 76.
\<close>

record start_result =
  returned :: "error option"
  container_after :: container
  calls :: "event list"
  iopipe :: "IOPipe option"

text \<open>\<^verbatim>\<open>strings.Join\<close>.\<close>

fun strings_Join :: "string list \<Rightarrow> string \<Rightarrow> string" where
  "strings_Join [] sep = []"
| "strings_Join [a] sep = a"
| "strings_Join (a # b # rest) sep = a @ sep @ strings_Join (b # rest) sep"

text \<open>Lines 50 to 62: the body of the loop for an option that marks servicing.\<close>

definition servicing :: "start_env \<Rightarrow> container \<Rightarrow> error option \<times> event list" where
  "servicing env ctr =
     (let shutdownTimeout = Timeout (5 * 60 * 1000);
          terminateTimeout = Timeout (1 * 60 * 1000)
      in case shutdown_err env of
           Some err \<Rightarrow>
             (Some err,
              [ShutdownComputeSystem (containerID ctr) shutdownTimeout [], Log Error,
               TerminateComputeSystem (containerID ctr) terminateTimeout []]
              @ (case terminate_err env of Some err2 \<Rightarrow> [Log Error] | None \<Rightarrow> []))
         | None \<Rightarrow>
             (None, [ShutdownComputeSystem (containerID ctr) shutdownTimeout []]))"

text \<open>
  Lines 48 to 64: the loop over the options. It returns out of \<^verbatim>\<open>start\<close> at the first
  \<^verbatim>\<open>*ServicingOption\<close> whose \<^verbatim>\<open>IsServicing\<close> is set (\<open>Some\<close>), or falls through (\<open>None\<close>).
\<close>

fun servicing_loop ::
  "CreateOption list \<Rightarrow> start_env \<Rightarrow> container \<Rightarrow> (error option \<times> event list) option" where
  "servicing_loop [] env ctr = None"
| "servicing_loop (ServicingOption s # rest) env ctr =
     (if s then Some (servicing env ctr) else servicing_loop rest env ctr)"
| "servicing_loop (OtherOption v # rest) env ctr = servicing_loop rest env ctr"

text \<open>Lines 66 to 74.\<close>

definition createProcessParms :: "package \<Rightarrow> container \<Rightarrow> CreateProcessParams" where
  "createProcessParms pkg ctr =
     \<lparr>EmulateConsole = Terminal (Process (ociSpec ctr)),
      WorkingDirectory = Cwd (Process (ociSpec ctr)),
      ConsoleSize = InitialConsoleSize (Process (ociSpec ctr)),
      Environment = setupEnvironmentVariables pkg (Env (Process (ociSpec ctr))),
      CommandLine = strings_Join (Args (Process (ociSpec ctr))) '' ''\<rparr>"

text \<open>Lines 76 to 135: what \<^verbatim>\<open>start\<close> does once the loop has fallen through.\<close>

definition start_process :: "package \<Rightarrow> start_env \<Rightarrow> container \<Rightarrow> start_result" where
  "start_process pkg env ctr =
     (let iopipe0 = \<lparr>Stdin = None, Stdout = None, Stderr = None,
                     IOPipe_Terminal = Terminal (Process (ociSpec ctr))\<rparr>;
          create = CreateProcessInComputeSystem (containerID ctr) True True
                     (\<not> Terminal (Process (ociSpec ctr))) (createProcessParms pkg ctr);
          iopipe1 = iopipe0\<lparr>Stdin := create_stdin env\<rparr>
      in case create_err env of
           Some err \<Rightarrow>
             \<lparr>returned = Some err, container_after = ctr,
              calls = [create, Log Error,
                       TerminateComputeSystem (containerID ctr) TimeoutInfinite
                         ''CreateProcessInComputeSystem failed'']
                      @ (case terminate_err env of Some err2 \<Rightarrow> [Log Warn] | None \<Rightarrow> []),
              iopipe = Some iopipe1\<rparr>
         | None \<Rightarrow>
             (let pid = create_pid env;
                  ctr1 = ctr\<lparr>startedAt := time_Now env\<rparr>;
                  iopipe2 = (case create_stdout env of
                               Some stdout \<Rightarrow> iopipe1\<lparr>Stdout := Some (openReaderFromPipe stdout)\<rparr>
                             | None \<Rightarrow> iopipe1);
                  iopipe3 = (case create_stderr env of
                               Some stderr \<Rightarrow> iopipe2\<lparr>Stderr := Some (openReaderFromPipe stderr)\<rparr>
                             | None \<Rightarrow> iopipe2);
                  ctr2 = ctr1\<lparr>systemPid := pid\<rparr>;
                  before = [create, Go_waitExit pid (InitFriendlyName pkg) True,
                            appendContainer (containerID ctr2),
                            AttachStreams (containerID ctr2) iopipe3]
              in case attachStreams_err env of
                   Some err \<Rightarrow>
                     \<lparr>returned = Some err, container_after = ctr2, calls = before,
                      iopipe = Some iopipe3\<rparr>
                 | None \<Rightarrow>
                     (let si = \<lparr>State = StateStart, ExitCode = 0, Pid = systemPid ctr2,
                                ProcessID = [], UpdatePending = False\<rparr>
                      in \<lparr>returned = stateChanged_err env, container_after = ctr2,
                          calls = before @ [StateChanged (containerID ctr2) si],
                          iopipe = Some iopipe3\<rparr>)))"

text \<open>The method \<^verbatim>\<open>start\<close>, lines 37 to 135.\<close>

definition start :: "package \<Rightarrow> start_env \<Rightarrow> container \<Rightarrow> start_result" where
  "start pkg env ctr =
     (case startComputeSystem_err env of
        Some err \<Rightarrow>
          \<lparr>returned = Some err, container_after = ctr,
           calls = [StartComputeSystem (containerID ctr), Log Error], iopipe = None\<rparr>
      | None \<Rightarrow>
          (case servicing_loop (options ctr) env ctr of
             Some (err, evs) \<Rightarrow>
               \<lparr>returned = err, container_after = ctr,
                calls = StartComputeSystem (containerID ctr) # evs, iopipe = None\<rparr>
           | None \<Rightarrow>
               (let r = start_process pkg env ctr
                in r\<lparr>calls := StartComputeSystem (containerID ctr) # calls r\<rparr>)))"

subsection \<open>\<^verbatim>\<open>waitExit\<close>\<close>

text \<open>
  What the collaborators answer during one run of \<^verbatim>\<open>waitExit\<close>. The exit code that
  \<^verbatim>\<open>WaitForProcessInComputeSystem\<close> returns is kept as its 32 bits, which the conversion
  \<^verbatim>\<open>uint32(exitCode)\<close> does not change. \<open>clock\<close> is the time at which line 201 reads it.
  What \<^verbatim>\<open>TerminateComputeSystem\<close> returns at line 190 is logged at Debug level only, so no
  call depends on \<open>terminateComputeSystem_err\<close>.
\<close>

record wait_env =
  waitForProcess_exitCode :: "32 word"
  waitForProcess_err :: "error option"
  getProperties_err :: "error option"
  getProperties_AreUpdatesPending :: bool
  shutdownComputeSystem_err :: "error option"
  terminateComputeSystem_err :: "error option"
  clock :: int
  stateChanged_233_err :: "error option"
  stateChanged_213_err :: "error option"

text \<open>Lines 144 to 152.\<close>

definition wait_for_exit :: "wait_env \<Rightarrow> container \<Rightarrow> 32 word \<Rightarrow> event list" where
  "wait_for_exit env ctr pid =
     WaitForProcessInComputeSystem (containerID ctr) pid TimeoutInfinite #
     (case waitForProcess_err env of
        Some (HcsError e) \<Rightarrow> (if e \<noteq> ERROR_BROKEN_PIPE then [Log Warn] else [])
      | Some (OtherError v) \<Rightarrow> []
      | None \<Rightarrow> [])"

text \<open>Lines 172 to 178.\<close>

definition update_pending :: "wait_env \<Rightarrow> container \<Rightarrow> StateInfo \<Rightarrow> StateInfo \<times> event list" where
  "update_pending env ctr si =
     (let propertyCheckFlag = 1
      in case getProperties_err env of
           Some err \<Rightarrow> (si, [GetComputeSystemProperties (containerID ctr) propertyCheckFlag, Log Warn])
         | None \<Rightarrow>
             (si\<lparr>UpdatePending := getProperties_AreUpdatesPending env\<rparr>,
              [GetComputeSystemProperties (containerID ctr) propertyCheckFlag]))"

text \<open>The condition of lines 185 to 188.\<close>

fun calls_terminate :: "error \<Rightarrow> bool" where
  "calls_terminate (HcsError e) =
     (e \<noteq> ERROR_SHUTDOWN_IN_PROGRESS \<and> e \<noteq> ErrorBadPathname \<and> e \<noteq> ERROR_PATH_NOT_FOUND)"
| "calls_terminate (OtherError v) = True"

text \<open>Lines 183 to 198.\<close>

definition shutdown :: "wait_env \<Rightarrow> container \<Rightarrow> event list" where
  "shutdown env ctr =
     (let shutdownTimeout = Timeout (5 * 60 * 1000)
      in ShutdownComputeSystem (containerID ctr) shutdownTimeout ''waitExit'' #
         (case shutdownComputeSystem_err env of
            Some err \<Rightarrow>
              (if calls_terminate err
               then [TerminateComputeSystem (containerID ctr) shutdownTimeout ''waitExit'']
               else [])
          | None \<Rightarrow> []))"

text \<open>
  After line 207 two tasks run side by side: the rest of \<^verbatim>\<open>waitExit\<close> (lines 226 to 235)
  and the function started at line 207 (lines 208 to 219). Both use the variable \<^verbatim>\<open>si\<close>
  and the container. Each task is a list of atomic instructions, named by their lines:
  the test of line 226 and the call of line 227 are two instructions, so that the
  other task may run between them. An instruction reads and writes the shared variables
  as the instructions before it in the schedule left them.
\<close>

datatype instr =
    L226_test
  | L227_delete
  | L233_notify
  | L208_receive chan
  | L209_clear
  | L210_delete
  | L212_downgrade
  | L213_notify
  | L216_log
  | L218_create

text \<open>Lines 208 to 219, for the value that the channel yields.\<close>

definition func :: "chan \<Rightarrow> instr list" where
  "func wait =
     [L208_receive wait, L209_clear, L210_delete] @
     (case wait of
        Some err \<Rightarrow> [L212_downgrade, L213_notify, L216_log]
      | None \<Rightarrow> [L218_create])"

text \<open>
  Lines 200 to 222. The result is \<^verbatim>\<open>si\<close>, the container, the calls made, and the task
  started at line 207 (empty when none is started).
\<close>

definition restart_decision ::
  "wait_env \<Rightarrow> container \<Rightarrow> 32 word \<Rightarrow> StateInfo \<Rightarrow>
     StateInfo \<times> container \<times> event list \<times> instr list" where
  "restart_decision env ctr exitCode si =
     (case restartManager ctr of
        Some rm \<Rightarrow>
          (if \<not> manualStopRequested ctr
           then (let since = clock env - startedAt ctr;
                     call = Call_ShouldRestart exitCode False since
                 in case ShouldRestart rm exitCode False since of
                      (restart, wait, Some err) \<Rightarrow> (si, ctr, [call, Log Error], [])
                    | (restart, wait, None) \<Rightarrow>
                        (if restart
                         then (si\<lparr>State := StateRestart\<rparr>, ctr\<lparr>restarting := True\<rparr>,
                               [call, Go_func], func wait)
                         else (si, ctr, [call], [])))
           else (si, ctr, [], []))
      | None \<Rightarrow> (si, ctr, [], []))"

text \<open>
  The variables the two tasks share, the register in which \<^verbatim>\<open>waitExit\<close> holds the outcome
  of the test of line 226, and the calls made so far.
\<close>

record wstate =
  the_si :: StateInfo
  the_ctr :: container
  saw_exit :: bool
  events :: "event list"

text \<open>
  Lines 141 to 222 run before any other task exists. The result is the state at that
  point, the rest of \<^verbatim>\<open>waitExit\<close> and the task started at line 207.
\<close>

definition waitExit_head ::
  "wait_env \<Rightarrow> container \<Rightarrow> 32 word \<Rightarrow> string \<Rightarrow> bool \<Rightarrow> wstate \<times> instr list \<times> instr list" where
  "waitExit_head env ctr pid processFriendlyName isFirstProcessToStart =
     (let exitCode = waitForProcess_exitCode env;
          evs0 = wait_for_exit env ctr pid;
          si = \<lparr>State = StateExit, ExitCode = exitCode, Pid = pid,
                ProcessID = processFriendlyName, UpdatePending = False\<rparr>
      in if \<not> isFirstProcessToStart
         then (\<lparr>the_si = si\<lparr>State := StateExitProcess\<rparr>, the_ctr = ctr, saw_exit = False,
                events = evs0\<rparr>,
               [L233_notify], [])
         else (let (si1, evs1) = update_pending env ctr si;
                   evs2 = shutdown env ctr;
                   (si2, ctr2, evs3, g) = restart_decision env ctr exitCode si1
               in (\<lparr>the_si = si2, the_ctr = ctr2, saw_exit = False,
                    events = evs0 @ evs1 @ evs2 @ evs3\<rparr>,
                   [L226_test, L227_delete, L233_notify], g)))"

text \<open>One instruction, on the shared state.\<close>

fun step :: "wait_env \<Rightarrow> wstate \<Rightarrow> instr \<Rightarrow> wstate" where
  "step env s L226_test = s\<lparr>saw_exit := (State (the_si s) = StateExit)\<rparr>"
| "step env s L227_delete =
     (if saw_exit s
      then s\<lparr>events := events s @ [deleteContainer (friendlyName (the_ctr s))]\<rparr>
      else s)"
| "step env s L233_notify =
     s\<lparr>events := events s @ StateChanged (containerID (the_ctr s)) (the_si s) #
         (case stateChanged_233_err env of Some err \<Rightarrow> [Log Error] | None \<Rightarrow> [])\<rparr>"
| "step env s (L208_receive wait) = s\<lparr>events := events s @ [Receive_wait wait]\<rparr>"
| "step env s L209_clear = s\<lparr>the_ctr := (the_ctr s)\<lparr>restarting := False\<rparr>\<rparr>"
| "step env s L210_delete =
     s\<lparr>events := events s @ [deleteContainer (friendlyName (the_ctr s))]\<rparr>"
| "step env s L212_downgrade = s\<lparr>the_si := (the_si s)\<lparr>State := StateExit\<rparr>\<rparr>"
| "step env s L213_notify =
     s\<lparr>events := events s @ StateChanged (containerID (the_ctr s)) (the_si s) #
         (case stateChanged_213_err env of Some err \<Rightarrow> [Log Error] | None \<Rightarrow> [])\<rparr>"
| "step env s L216_log = s\<lparr>events := events s @ [Log Error]\<rparr>"
| "step env s L218_create =
     s\<lparr>events := events s @
         [Create (containerID (the_ctr s)) (ociSpec (the_ctr s)) (options (the_ctr s))]\<rparr>"

text \<open>
  A schedule is an interleaving of the two tasks that keeps the order of each. The
  receive of line 208 is an instruction like the others: where the schedule places it
  is when the channel yields.
\<close>

definition waitExit_schedules ::
  "wait_env \<Rightarrow> container \<Rightarrow> 32 word \<Rightarrow> string \<Rightarrow> bool \<Rightarrow> instr list set" where
  "waitExit_schedules env ctr pid processFriendlyName isFirstProcessToStart =
     (case waitExit_head env ctr pid processFriendlyName isFirstProcessToStart of
        (s, rest, g) \<Rightarrow> shuffles rest g)"

text \<open>
  \<^verbatim>\<open>waitExit\<close> under a schedule: the final state, whose field \<open>events\<close> holds every call
  made by \<^verbatim>\<open>waitExit\<close> and by the task it started, in the order they were made.
\<close>

definition waitExit ::
  "wait_env \<Rightarrow> container \<Rightarrow> 32 word \<Rightarrow> string \<Rightarrow> bool \<Rightarrow> instr list \<Rightarrow> wstate" where
  "waitExit env ctr pid processFriendlyName isFirstProcessToStart schedule =
     (case waitExit_head env ctr pid processFriendlyName isFirstProcessToStart of
        (s, rest, g) \<Rightarrow> foldl (step env) s schedule)"

subsection \<open>Vocabulary of the properties\<close>

text \<open>
  A restart is granted when line 204 is reached with \<^verbatim>\<open>restart\<close> set: no manual stop was
  requested, a restart manager is configured, and \<^verbatim>\<open>ShouldRestart\<close> answers without
  error that the container is to be restarted. The result is the channel it hands out.
\<close>

definition restart_granted :: "wait_env \<Rightarrow> container \<Rightarrow> chan option" where
  "restart_granted env ctr =
     (case restartManager ctr of
        None \<Rightarrow> None
      | Some rm \<Rightarrow>
          (if manualStopRequested ctr then None
           else (case ShouldRestart rm (waitForProcess_exitCode env) False
                        (clock env - startedAt ctr) of
                   (restart, wait, err) \<Rightarrow>
                     (if err = None \<and> restart then Some wait else None))))"

text \<open>The kinds of call that only the instructions of the two tasks make.\<close>

definition after_split :: "event \<Rightarrow> bool" where
  "after_split e = (is_delete e \<or> is_StateChanged e \<or> is_Receive e \<or> is_Create e)"

text \<open>What lines 144 to 198 call, whatever the host answers.\<close>

definition teardown :: "wait_env \<Rightarrow> container \<Rightarrow> 32 word \<Rightarrow> StateInfo \<Rightarrow> event list" where
  "teardown env ctr pid si =
     wait_for_exit env ctr pid @ snd (update_pending env ctr si) @ shutdown env ctr"

text \<open>
  The state of \<^verbatim>\<open>si\<close>, and of every notification sent so far, is \<^verbatim>\<open>StateRestart\<close> or
  \<^verbatim>\<open>StateExit\<close>.
\<close>

definition exit_or_restart :: "wstate \<Rightarrow> bool" where
  "exit_or_restart s \<longleftrightarrow>
     (State (the_si s) = StateRestart \<or> State (the_si s) = StateExit)
     \<and> (\<forall>e \<in> set (events s). is_StateChanged e \<longrightarrow>
           State (info e) = StateRestart \<or> State (info e) = StateExit)"

text \<open>
  A call that neither removes the container from the registry, nor creates it again, nor
  reports \<^verbatim>\<open>StateExit\<close> to the backend.
\<close>

definition keeps_entry :: "event \<Rightarrow> bool" where
  "keeps_entry e \<longleftrightarrow>
     \<not> is_delete e \<and> \<not> is_Create e \<and> \<not> (is_StateChanged e \<and> State (info e) = StateExit)"

subsection \<open>Concrete inputs\<close>

definition pkg0 :: package where
  "pkg0 = \<lparr>InitFriendlyName = ''init'', setupEnvironmentVariables = (\<lambda>env. [])\<rparr>"

definition ctr0 :: container where
  "ctr0 = \<lparr>containerID = ''c1'', friendlyName = ''c1'', restartManager = None,
           restarting = False, startedAt = 0, systemPid = 0, options = [],
           ociSpec = \<lparr>Process = \<lparr>Terminal = False, Cwd = ''C:'', InitialConsoleSize = (25, 80),
                                  Env = [], Args = [''cmd'', ''/c'', ''dir'']\<rparr>\<rparr>,
           manualStopRequested = False\<rparr>"

definition senv0 :: start_env where
  "senv0 = \<lparr>startComputeSystem_err = None, shutdown_err = None, terminate_err = None,
            create_pid = 7, create_stdin = Some 1, create_stdout = Some 2,
            create_stderr = Some 3, create_err = None, time_Now = 100,
            attachStreams_err = None, stateChanged_err = None\<rparr>"

definition wenv0 :: wait_env where
  "wenv0 = \<lparr>waitForProcess_exitCode = 1, waitForProcess_err = None,
            getProperties_err = None, getProperties_AreUpdatesPending = False,
            shutdownComputeSystem_err = None, terminateComputeSystem_err = None,
            clock = 500, stateChanged_233_err = None, stateChanged_213_err = None\<rparr>"

text \<open>A restart manager that always grants the restart and hands out the given channel.\<close>

definition always_restart :: "chan \<Rightarrow> RestartManager" where
  "always_restart wait = \<lparr>ShouldRestart = (\<lambda>exitCode manual since. (True, wait, None))\<rparr>"

text \<open>
  Containers whose restart manager grants the restart, with a channel that yields an
  error or nil; the schedule in which \<^verbatim>\<open>waitExit\<close> finishes before the channel yields; a
  host whose shutdown fails with an error that is no \<^verbatim>\<open>HcsError\<close>; a host that fails to
  create the process.
\<close>

definition restart_fails :: container where
  "restart_fails = ctr0\<lparr>restartManager := Some (always_restart (Some (OtherError ''cancelled'')))\<rparr>"

definition restart_succeeds :: container where
  "restart_succeeds = ctr0\<lparr>restartManager := Some (always_restart None)\<rparr>"

definition main_first :: "chan \<Rightarrow> instr list" where
  "main_first wait = [L226_test, L227_delete, L233_notify] @ func wait"

definition shutdown_hangs :: wait_env where
  "shutdown_hangs = wenv0\<lparr>shutdownComputeSystem_err := Some (OtherError ''timeout'')\<rparr>"

definition create_fails :: start_env where
  "create_fails = senv0\<lparr>create_err := Some (OtherError ''bad image'')\<rparr>"

definition shutdown_in_progress :: wait_env where
  "shutdown_in_progress =
     wenv0\<lparr>shutdownComputeSystem_err := Some (HcsError ERROR_SHUTDOWN_IN_PROGRESS)\<rparr>"

section \<open>Properties\<close>

subsection \<open>\<^verbatim>\<open>start\<close>\<close>

lemma strings_Join_example: "strings_Join [''cmd'', ''/c'', ''dir''] '' '' = ''cmd /c dir''"
  by simp

lemma servicing_loop_Some:
  "ServicingOption True \<in> set opts \<Longrightarrow> servicing_loop opts env ctr = Some (servicing env ctr)"
  by (induction opts env ctr rule: servicing_loop.induct) auto

lemma servicing_loop_None:
  "ServicingOption True \<notin> set opts \<Longrightarrow> servicing_loop opts env ctr = None"
  by (induction opts env ctr rule: servicing_loop.induct) auto

text \<open>
  C10. If the host's call to start the compute system fails, \<^verbatim>\<open>start\<close> returns that error
  at once: the only calls it has made are \<^verbatim>\<open>StartComputeSystem\<close> and the log of the error,
  so nothing is terminated, no process is created, the container is not registered and
  the backend is told nothing; the container is left as it was.
\<close>

theorem start_failure_returns_at_once:
  assumes "startComputeSystem_err env = Some err"
  shows "returned (start pkg env ctr) = Some err
       \<and> calls (start pkg env ctr) = [StartComputeSystem (containerID ctr), Log Error]
       \<and> iopipe (start pkg env ctr) = None
       \<and> container_after (start pkg env ctr) = ctr"
  using assms by (simp add: start_def)

theorem start_failure_returns_at_once_witness:
  "startComputeSystem_err (senv0\<lparr>startComputeSystem_err := Some (OtherError ''no vm'')\<rparr>)
     = Some (OtherError ''no vm'')
   \<and> returned (start pkg0 (senv0\<lparr>startComputeSystem_err := Some (OtherError ''no vm'')\<rparr>) ctr0)
     = Some (OtherError ''no vm'')
   \<and> calls (start pkg0 (senv0\<lparr>startComputeSystem_err := Some (OtherError ''no vm'')\<rparr>) ctr0)
     = [StartComputeSystem ''c1'', Log Error]"
  using start_failure_returns_at_once
    [of "senv0\<lparr>startComputeSystem_err := Some (OtherError ''no vm'')\<rparr>" "OtherError ''no vm''"
        pkg0 ctr0]
  by (simp add: ctr0_def)

text \<open>
  C4. When the options hold a servicing option that is set, \<^verbatim>\<open>start\<close> never asks the host
  to create a process, never starts \<^verbatim>\<open>waitExit\<close>, never hands streams to the backend and
  allocates no \<^verbatim>\<open>IOPipe\<close>. Once the compute system has started, the host calls are the
  start, the shutdown and, exactly when the shutdown fails, the termination; what
  \<^verbatim>\<open>start\<close> returns is what the shutdown returned, whatever the termination returns.
\<close>

theorem servicing_start:
  assumes "ServicingOption True \<in> set (options ctr)"
  shows "(\<forall>e \<in> set (calls (start pkg env ctr)).
            \<not> is_CreateProcess e \<and> \<not> is_Go_waitExit e \<and> \<not> is_AttachStreams e)
       \<and> iopipe (start pkg env ctr) = None
       \<and> (startComputeSystem_err env = None \<longrightarrow>
            returned (start pkg env ctr) = shutdown_err env
          \<and> filter (\<lambda>e. \<not> is_Log e) (calls (start pkg env ctr)) =
              [StartComputeSystem (containerID ctr),
               ShutdownComputeSystem (containerID ctr) (Timeout 300000) []]
              @ (if shutdown_err env = None then []
                 else [TerminateComputeSystem (containerID ctr) (Timeout 60000) []]))"
  using assms
  by (cases "startComputeSystem_err env"; cases "shutdown_err env"; cases "terminate_err env")
    (simp_all add: start_def servicing_loop_Some servicing_def)

theorem servicing_start_witness:
  "ServicingOption True \<in> set (options (ctr0\<lparr>options := [OtherOption ''o'', ServicingOption True]\<rparr>))
   \<and> startComputeSystem_err (senv0\<lparr>shutdown_err := Some (OtherError ''busy'')\<rparr>) = None
   \<and> terminate_err (senv0\<lparr>shutdown_err := Some (OtherError ''busy'')\<rparr>) = None
   \<and> returned (start pkg0 (senv0\<lparr>shutdown_err := Some (OtherError ''busy'')\<rparr>)
        (ctr0\<lparr>options := [OtherOption ''o'', ServicingOption True]\<rparr>)) = Some (OtherError ''busy'')
   \<and> filter (\<lambda>e. \<not> is_Log e)
        (calls (start pkg0 (senv0\<lparr>shutdown_err := Some (OtherError ''busy'')\<rparr>)
           (ctr0\<lparr>options := [OtherOption ''o'', ServicingOption True]\<rparr>))) =
       [StartComputeSystem ''c1'', ShutdownComputeSystem ''c1'' (Timeout 300000) [],
        TerminateComputeSystem ''c1'' (Timeout 60000) []]"
  using servicing_start
    [of "ctr0\<lparr>options := [OtherOption ''o'', ServicingOption True]\<rparr>" pkg0
        "senv0\<lparr>shutdown_err := Some (OtherError ''busy'')\<rparr>"]
  by (simp add: ctr0_def senv0_def)

text \<open>
  C8. When no servicing option is set, the compute system has started and the host fails
  to create the process, \<^verbatim>\<open>start\<close> asks the host to terminate the compute system, logs a
  failure of that termination and nothing more about it, and returns the error of the
  creation. The calls listed are all the calls: \<^verbatim>\<open>waitExit\<close> is not started.
\<close>

theorem create_failure:
  assumes "startComputeSystem_err env = None"
    and "ServicingOption True \<notin> set (options ctr)"
    and "create_err env = Some err"
  shows "returned (start pkg env ctr) = Some err
       \<and> calls (start pkg env ctr) =
           [StartComputeSystem (containerID ctr),
            CreateProcessInComputeSystem (containerID ctr) True True
              (\<not> Terminal (Process (ociSpec ctr))) (createProcessParms pkg ctr),
            Log Error,
            TerminateComputeSystem (containerID ctr) TimeoutInfinite
              ''CreateProcessInComputeSystem failed'']
           @ (if terminate_err env = None then [] else [Log Warn])"
  using assms
  by (auto simp: start_def servicing_loop_None start_process_def split: option.splits)

theorem create_failure_witness:
  "startComputeSystem_err
     (senv0\<lparr>create_err := Some (OtherError ''bad image''), terminate_err := Some (OtherError ''gone'')\<rparr>)
     = None
   \<and> ServicingOption True \<notin> set (options (ctr0\<lparr>options := [ServicingOption False]\<rparr>))
   \<and> returned (start pkg0
        (senv0\<lparr>create_err := Some (OtherError ''bad image''), terminate_err := Some (OtherError ''gone'')\<rparr>)
        (ctr0\<lparr>options := [ServicingOption False]\<rparr>)) = Some (OtherError ''bad image'')
   \<and> calls (start pkg0
        (senv0\<lparr>create_err := Some (OtherError ''bad image''), terminate_err := Some (OtherError ''gone'')\<rparr>)
        (ctr0\<lparr>options := [ServicingOption False]\<rparr>)) =
       [StartComputeSystem ''c1'',
        CreateProcessInComputeSystem ''c1'' True True True
          \<lparr>EmulateConsole = False, WorkingDirectory = ''C:'', ConsoleSize = (25, 80),
           Environment = [], CommandLine = ''cmd /c dir''\<rparr>,
        Log Error,
        TerminateComputeSystem ''c1'' TimeoutInfinite ''CreateProcessInComputeSystem failed'',
        Log Warn]"
  using create_failure
    [of "senv0\<lparr>create_err := Some (OtherError ''bad image''), terminate_err := Some (OtherError ''gone'')\<rparr>"
        "ctr0\<lparr>options := [ServicingOption False]\<rparr>" "OtherError ''bad image''" pkg0]
  by (simp add: ctr0_def senv0_def pkg0_def createProcessParms_def)

text \<open>
  C9. When no servicing option is set and the compute system has started, \<^verbatim>\<open>start\<close> makes
  one request to create a process: it asks for stdin and for stdout whatever the
  terminal flag is, and for stderr exactly when the process has no terminal.
\<close>

theorem create_request:
  assumes "startComputeSystem_err env = None"
    and "ServicingOption True \<notin> set (options ctr)"
  shows "filter is_CreateProcess (calls (start pkg env ctr)) =
           [CreateProcessInComputeSystem (containerID ctr) True True
              (\<not> Terminal (Process (ociSpec ctr))) (createProcessParms pkg ctr)]"
  using assms
  by (auto simp: start_def servicing_loop_None start_process_def Let_def split: option.splits)

theorem create_request_witness:
  "startComputeSystem_err senv0 = None
   \<and> ServicingOption True \<notin> set (options (ctr0\<lparr>ociSpec := \<lparr>Process = (Process (ociSpec ctr0))\<lparr>Terminal := True\<rparr>\<rparr>\<rparr>))
   \<and> filter is_CreateProcess
       (calls (start pkg0 senv0 (ctr0\<lparr>ociSpec := \<lparr>Process = (Process (ociSpec ctr0))\<lparr>Terminal := True\<rparr>\<rparr>\<rparr>))) =
       [CreateProcessInComputeSystem ''c1'' True True False
          \<lparr>EmulateConsole = True, WorkingDirectory = ''C:'', ConsoleSize = (25, 80),
           Environment = [], CommandLine = ''cmd /c dir''\<rparr>]"
  using create_request
    [of senv0 "ctr0\<lparr>ociSpec := \<lparr>Process = (Process (ociSpec ctr0))\<lparr>Terminal := True\<rparr>\<rparr>\<rparr>" pkg0]
  by (simp add: ctr0_def senv0_def pkg0_def createProcessParms_def)

subsection \<open>\<^verbatim>\<open>waitExit\<close>: the part before the tasks split\<close>

lemma restart_decision_manual:
  "manualStopRequested ctr \<Longrightarrow> restart_decision env ctr ec si = (si, ctr, [], [])"
  by (simp add: restart_decision_def split: option.splits)

lemma restart_decision_granted:
  "restart_granted env ctr = Some w \<Longrightarrow>
     restart_decision env ctr (waitForProcess_exitCode env) si =
       (si\<lparr>State := StateRestart\<rparr>, ctr\<lparr>restarting := True\<rparr>,
        [Call_ShouldRestart (waitForProcess_exitCode env) False (clock env - startedAt ctr), Go_func],
        func w)"
  by (auto simp: restart_decision_def restart_granted_def Let_def
      split: option.splits if_splits prod.splits)

lemma restart_decision_not_granted:
  "restart_granted env ctr = None \<Longrightarrow>
     \<exists>evs. restart_decision env ctr (waitForProcess_exitCode env) si = (si, ctr, evs, [])
          \<and> (\<forall>e \<in> set evs. is_ShouldRestart e \<or> is_Log e)"
  by (auto simp: restart_decision_def restart_granted_def Let_def
      split: option.splits if_splits prod.splits)

lemma wait_for_exit_kinds_all:
  "\<forall>e \<in> set (wait_for_exit env ctr pid).
     \<not> after_split e \<and> \<not> is_ShouldRestart e \<and> e \<noteq> Go_func \<and> \<not> is_Shutdown e \<and> \<not> is_Terminate e"
  by (fastforce simp: wait_for_exit_def after_split_def split: option.splits error.splits)

lemma wait_for_exit_kinds:
  "e \<in> set (wait_for_exit env ctr pid) \<Longrightarrow>
     \<not> after_split e \<and> \<not> is_ShouldRestart e \<and> e \<noteq> Go_func \<and> \<not> is_Shutdown e \<and> \<not> is_Terminate e"
  by (rule bspec [OF wait_for_exit_kinds_all])

lemma update_pending_kinds_all:
  "\<forall>e \<in> set (snd (update_pending env ctr si)).
     \<not> after_split e \<and> \<not> is_ShouldRestart e \<and> e \<noteq> Go_func \<and> \<not> is_Shutdown e \<and> \<not> is_Terminate e"
  by (fastforce simp: update_pending_def after_split_def split: option.splits)

lemma update_pending_kinds:
  "e \<in> set (snd (update_pending env ctr si)) \<Longrightarrow>
     \<not> after_split e \<and> \<not> is_ShouldRestart e \<and> e \<noteq> Go_func \<and> \<not> is_Shutdown e \<and> \<not> is_Terminate e"
  by (rule bspec [OF update_pending_kinds_all])

lemma update_pending_si:
  "fst (update_pending env ctr si) =
     si\<lparr>UpdatePending := (if getProperties_err env = None
                           then getProperties_AreUpdatesPending env else UpdatePending si)\<rparr>"
  by (auto simp: update_pending_def split: option.splits)

lemma shutdown_kinds_all:
  "\<forall>e \<in> set (shutdown env ctr).
     \<not> after_split e \<and> \<not> is_ShouldRestart e \<and> e \<noteq> Go_func
     \<and> timeout_of e = Timeout 300000"
  by (fastforce simp: shutdown_def Let_def after_split_def split: option.splits)

lemma shutdown_kinds:
  "e \<in> set (shutdown env ctr) \<Longrightarrow>
     \<not> after_split e \<and> \<not> is_ShouldRestart e \<and> e \<noteq> Go_func
     \<and> timeout_of e = Timeout 300000"
  by (rule bspec [OF shutdown_kinds_all])

lemma teardown_kinds:
  "e \<in> set (teardown env ctr pid si) \<Longrightarrow>
     \<not> after_split e \<and> \<not> is_ShouldRestart e \<and> e \<noteq> Go_func"
  unfolding teardown_def
  by (auto dest: wait_for_exit_kinds update_pending_kinds shutdown_kinds)

lemma waitExit_head_init:
  "waitExit_head env ctr pid name True =
     (case restart_decision env ctr (waitForProcess_exitCode env)
             (fst (update_pending env ctr
                \<lparr>State = StateExit, ExitCode = waitForProcess_exitCode env, Pid = pid,
                 ProcessID = name, UpdatePending = False\<rparr>)) of
        (si2, ctr2, evs3, g) \<Rightarrow>
          (\<lparr>the_si = si2, the_ctr = ctr2, saw_exit = False,
            events = teardown env ctr pid
                \<lparr>State = StateExit, ExitCode = waitForProcess_exitCode env, Pid = pid,
                 ProcessID = name, UpdatePending = False\<rparr> @ evs3\<rparr>,
           [L226_test, L227_delete, L233_notify], g))"
  by (simp add: waitExit_head_def teardown_def Let_def split: prod.splits)

lemma waitExit_head_exec:
  "waitExit_head env ctr pid name False =
     (\<lparr>the_si = \<lparr>State = StateExitProcess, ExitCode = waitForProcess_exitCode env, Pid = pid,
                 ProcessID = name, UpdatePending = False\<rparr>,
       the_ctr = ctr, saw_exit = False, events = wait_for_exit env ctr pid\<rparr>,
      [L233_notify], [])"
  by (simp add: waitExit_head_def)

lemma run_main_alone:
  "foldl (step env) s [L226_test, L227_delete, L233_notify] =
     s\<lparr>saw_exit := (State (the_si s) = StateExit),
       events := events s
         @ (if State (the_si s) = StateExit then [deleteContainer (friendlyName (the_ctr s))] else [])
         @ StateChanged (containerID (the_ctr s)) (the_si s)
           # (case stateChanged_233_err env of Some err \<Rightarrow> [Log Error] | None \<Rightarrow> [])\<rparr>"
  by simp

text \<open>
  C6. When the process that exited is not the init process, the calls that \<^verbatim>\<open>waitExit\<close>
  makes, logging apart, are the wait and one notification with state \<^verbatim>\<open>StateExitProcess\<close>:
  the compute system is neither shut down nor terminated and the restart manager is
  not asked.
\<close>

theorem exec_exit:
  assumes "sched \<in> waitExit_schedules env ctr pid name False"
  shows "filter (\<lambda>e. \<not> is_Log e) (events (waitExit env ctr pid name False sched)) =
           [WaitForProcessInComputeSystem (containerID ctr) pid TimeoutInfinite,
            StateChanged (containerID ctr)
              \<lparr>State = StateExitProcess, ExitCode = waitForProcess_exitCode env, Pid = pid,
               ProcessID = name, UpdatePending = False\<rparr>]"
  using assms
  by (auto simp: waitExit_schedules_def waitExit_def waitExit_head_def wait_for_exit_def
      split: option.splits error.splits)

theorem exec_exit_witness:
  "[L233_notify] \<in> waitExit_schedules wenv0 (ctr0\<lparr>restartManager := Some (always_restart None)\<rparr>)
      9 ''exec1'' False
   \<and> filter (\<lambda>e. \<not> is_Log e)
       (events (waitExit wenv0 (ctr0\<lparr>restartManager := Some (always_restart None)\<rparr>)
          9 ''exec1'' False [L233_notify])) =
       [WaitForProcessInComputeSystem ''c1'' 9 TimeoutInfinite,
        StateChanged ''c1''
          \<lparr>State = StateExitProcess, ExitCode = 1, Pid = 9, ProcessID = ''exec1'',
           UpdatePending = False\<rparr>]"
  using exec_exit
    [of "[L233_notify]" wenv0 "ctr0\<lparr>restartManager := Some (always_restart None)\<rparr>" 9 "''exec1''"]
  by (simp add: waitExit_schedules_def waitExit_head_def ctr0_def wenv0_def)

text \<open>
  C2. When \<^verbatim>\<open>manualStopRequested\<close> is set as \<^verbatim>\<open>waitExit\<close> reads it, then, whether a restart
  manager is configured or not, \<^verbatim>\<open>ShouldRestart\<close> is not called, no task is started, nothing
  is received from a channel, no container is created again and no notification carries
  the state \<^verbatim>\<open>StateRestart\<close>.
\<close>

theorem manual_stop:
  assumes "manualStopRequested ctr"
    and "sched \<in> waitExit_schedules env ctr pid name isFirst"
  shows "\<forall>e \<in> set (events (waitExit env ctr pid name isFirst sched)).
           \<not> is_ShouldRestart e \<and> e \<noteq> Go_func \<and> \<not> is_Receive e \<and> \<not> is_Create e
         \<and> (is_StateChanged e \<longrightarrow> State (info e) \<noteq> StateRestart)"
proof (cases isFirst)
  case False
  have sched: "sched = [L233_notify]"
    using assms(2) False by (simp add: waitExit_schedules_def waitExit_head_exec)
  have "events (waitExit env ctr pid name False sched) =
          wait_for_exit env ctr pid
          @ StateChanged (containerID ctr)
              \<lparr>State = StateExitProcess, ExitCode = waitForProcess_exitCode env, Pid = pid,
               ProcessID = name, UpdatePending = False\<rparr>
            # (case stateChanged_233_err env of Some err \<Rightarrow> [Log Error] | None \<Rightarrow> [])"
    unfolding sched by (simp add: waitExit_def waitExit_head_exec)
  then show ?thesis
    using False wait_for_exit_kinds [of _ env ctr pid]
    by (auto simp: after_split_def split: option.splits)
next
  case True
  let ?si = "\<lparr>State = StateExit, ExitCode = waitForProcess_exitCode env, Pid = pid,
              ProcessID = name, UpdatePending = False\<rparr>"
  have sched: "sched = [L226_test, L227_delete, L233_notify]"
    using assms True by (simp add: waitExit_schedules_def waitExit_head_init restart_decision_manual)
  have "events (waitExit env ctr pid name True sched) =
          teardown env ctr pid ?si
          @ [deleteContainer (friendlyName ctr),
             StateChanged (containerID ctr) (fst (update_pending env ctr ?si))]
          @ (case stateChanged_233_err env of Some err \<Rightarrow> [Log Error] | None \<Rightarrow> [])"
    unfolding sched waitExit_def waitExit_head_init restart_decision_manual [OF assms(1)]
    by (simp add: update_pending_si)
  then show ?thesis
    using True teardown_kinds [of _ env ctr pid ?si]
    by (auto simp: after_split_def update_pending_si split: option.splits)
qed

theorem manual_stop_witness:
  "manualStopRequested
     (ctr0\<lparr>restartManager := Some (always_restart None), manualStopRequested := True\<rparr>)
   \<and> [L226_test, L227_delete, L233_notify] \<in> waitExit_schedules wenv0
       (ctr0\<lparr>restartManager := Some (always_restart None), manualStopRequested := True\<rparr>)
       7 ''init'' True
   \<and> events (waitExit wenv0
       (ctr0\<lparr>restartManager := Some (always_restart None), manualStopRequested := True\<rparr>)
       7 ''init'' True [L226_test, L227_delete, L233_notify]) =
       [WaitForProcessInComputeSystem ''c1'' 7 TimeoutInfinite,
        GetComputeSystemProperties ''c1'' 1,
        ShutdownComputeSystem ''c1'' (Timeout 300000) ''waitExit'',
        deleteContainer ''c1'',
        StateChanged ''c1''
          \<lparr>State = StateExit, ExitCode = 1, Pid = 7, ProcessID = ''init'',
           UpdatePending = False\<rparr>]
   \<and> list_all
        (\<lambda>e. \<not> is_ShouldRestart e \<and> e \<noteq> Go_func \<and> \<not> is_Receive e \<and> \<not> is_Create e
           \<and> (is_StateChanged e \<longrightarrow> State (info e) \<noteq> StateRestart))
        (events (waitExit wenv0
          (ctr0\<lparr>restartManager := Some (always_restart None), manualStopRequested := True\<rparr>)
          7 ''init'' True [L226_test, L227_delete, L233_notify]))"
  using manual_stop
    [of "ctr0\<lparr>restartManager := Some (always_restart None), manualStopRequested := True\<rparr>"
        "[L226_test, L227_delete, L233_notify]" wenv0 7 "''init''" True]
  by (simp add: waitExit_schedules_def waitExit_def waitExit_head_def wait_for_exit_def
      update_pending_def shutdown_def Let_def restart_decision_def ctr0_def wenv0_def)

lemma restart_decision_kinds:
  "e \<in> set (fst (snd (snd (restart_decision env ctr ec si)))) \<Longrightarrow>
     is_ShouldRestart e \<or> is_Log e \<or> e = Go_func"
  by (auto simp: restart_decision_def Let_def split: option.splits if_splits prod.splits)

lemma head_kinds:
  assumes "e \<in> set (events (fst (waitExit_head env ctr pid name isFirst)))"
  shows "\<not> after_split e \<and> ((is_Shutdown e \<or> is_Terminate e) \<longrightarrow> timeout_of e = Timeout 300000)"
proof (cases isFirst)
  case False
  then show ?thesis
    using assms wait_for_exit_kinds [of e env ctr pid] by (simp add: waitExit_head_exec)
next
  case True
  let ?si = "\<lparr>State = StateExit, ExitCode = waitForProcess_exitCode env, Pid = pid,
              ProcessID = name, UpdatePending = False\<rparr>"
  let ?r = "restart_decision env ctr (waitForProcess_exitCode env) (fst (update_pending env ctr ?si))"
  have "e \<in> set (wait_for_exit env ctr pid) \<or> e \<in> set (snd (update_pending env ctr ?si))
      \<or> e \<in> set (shutdown env ctr) \<or> e \<in> set (fst (snd (snd ?r)))"
    using assms True by (auto simp: waitExit_head_init teardown_def split: prod.splits)
  then show ?thesis
    using wait_for_exit_kinds [of e env ctr pid] update_pending_kinds [of e env ctr ?si]
      shutdown_kinds [of e env ctr] restart_decision_kinds [of e env ctr _ _]
    by (auto simp: after_split_def)
qed

subsection \<open>The two tasks\<close>

lemma step_events:
  "\<exists>xs. events (step env s i) = events s @ xs \<and> (\<forall>e \<in> set xs. after_split e \<or> is_Log e)"
  by (cases i) (auto simp: after_split_def split: option.splits)

lemma step_friendlyName [simp]: "friendlyName (the_ctr (step env s i)) = friendlyName (the_ctr s)"
  by (cases i) auto

lemma step_containerID [simp]: "containerID (the_ctr (step env s i)) = containerID (the_ctr s)"
  by (cases i) auto

lemma run_events:
  "\<exists>xs. events (foldl (step env) s sched) = events s @ xs
        \<and> (\<forall>e \<in> set xs. after_split e \<or> is_Log e)"
proof (induction sched arbitrary: s)
  case Nil
  then show ?case by simp
next
  case (Cons i sched)
  obtain xs where xs: "events (step env s i) = events s @ xs"
    "\<forall>e \<in> set xs. after_split e \<or> is_Log e"
    using step_events by blast
  obtain ys where ys: "events (foldl (step env) (step env s i) sched) = events (step env s i) @ ys"
    "\<forall>e \<in> set ys. after_split e \<or> is_Log e"
    using Cons.IH by blast
  have "events (foldl (step env) s (i # sched)) = events s @ (xs @ ys)"
    using xs ys by simp
  moreover have "\<forall>e \<in> set (xs @ ys). after_split e \<or> is_Log e"
    using xs ys by auto
  ultimately show ?case by blast
qed

lemma run_friendlyName [simp]:
  "friendlyName (the_ctr (foldl (step env) s sched)) = friendlyName (the_ctr s)"
  by (induction sched arbitrary: s) simp_all

lemma run_containerID [simp]:
  "containerID (the_ctr (foldl (step env) s sched)) = containerID (the_ctr s)"
  by (induction sched arbitrary: s) simp_all

text \<open>An instruction that always makes a call leaves it in the trace.\<close>

lemma run_emits_delete:
  "L210_delete \<in> set sched \<Longrightarrow>
     \<exists>xs. events (foldl (step env) s sched) = events s @ xs
        \<and> deleteContainer (friendlyName (the_ctr s)) \<in> set xs"
proof (induction sched arbitrary: s)
  case Nil
  then show ?case by simp
next
  case (Cons i sched)
  show ?case
  proof (cases "i = L210_delete")
    case True
    obtain ys where "events (foldl (step env) (step env s i) sched) = events (step env s i) @ ys"
      using run_events by blast
    then have "events (foldl (step env) s (i # sched))
                 = events s @ (deleteContainer (friendlyName (the_ctr s)) # ys)"
      using True by simp
    moreover have "deleteContainer (friendlyName (the_ctr s))
                     \<in> set (deleteContainer (friendlyName (the_ctr s)) # ys)"
      by simp
    ultimately show ?thesis by blast
  next
    case False
    then have "L210_delete \<in> set sched" using Cons.prems by simp
    then obtain ys where ys:
      "events (foldl (step env) (step env s i) sched) = events (step env s i) @ ys"
      "deleteContainer (friendlyName (the_ctr (step env s i))) \<in> set ys"
      using Cons.IH by blast
    obtain xs where xs: "events (step env s i) = events s @ xs"
      using step_events by blast
    have "events (foldl (step env) s (i # sched)) = events s @ (xs @ ys)"
      using xs ys by simp
    moreover have "deleteContainer (friendlyName (the_ctr s)) \<in> set (xs @ ys)"
      using ys by simp
    ultimately show ?thesis by blast
  qed
qed

lemma run_emits_notify:
  "L233_notify \<in> set sched \<Longrightarrow>
     \<exists>xs. events (foldl (step env) s sched) = events s @ xs \<and> (\<exists>e \<in> set xs. is_StateChanged e)"
proof (induction sched arbitrary: s)
  case Nil
  then show ?case by simp
next
  case (Cons i sched)
  show ?case
  proof (cases "i = L233_notify")
    case True
    obtain ys where "events (foldl (step env) (step env s i) sched) = events (step env s i) @ ys"
      using run_events by blast
    then have "events (foldl (step env) s (i # sched))
                 = events s @ (StateChanged (containerID (the_ctr s)) (the_si s)
                     # (case stateChanged_233_err env of Some err \<Rightarrow> [Log Error] | None \<Rightarrow> []) @ ys)"
      using True by simp
    moreover have "\<exists>e \<in> set (StateChanged (containerID (the_ctr s)) (the_si s)
                     # (case stateChanged_233_err env of Some err \<Rightarrow> [Log Error] | None \<Rightarrow> []) @ ys).
                 is_StateChanged e"
      by simp
    ultimately show ?thesis by blast
  next
    case False
    then have "L233_notify \<in> set sched" using Cons.prems by simp
    then obtain ys where ys:
      "events (foldl (step env) (step env s i) sched) = events (step env s i) @ ys"
      "\<exists>e \<in> set ys. is_StateChanged e"
      using Cons.IH by blast
    obtain xs where xs: "events (step env s i) = events s @ xs"
      using step_events by blast
    have "events (foldl (step env) s (i # sched)) = events s @ (xs @ ys)"
      using xs ys by simp
    moreover have "\<exists>e \<in> set (xs @ ys). is_StateChanged e"
      using ys by auto
    ultimately show ?thesis by blast
  qed
qed

subsection \<open>Shutdown and termination\<close>

lemma calls_terminate_iff:
  "calls_terminate err \<longleftrightarrow>
     err \<notin> {HcsError ERROR_SHUTDOWN_IN_PROGRESS, HcsError ErrorBadPathname,
              HcsError ERROR_PATH_NOT_FOUND}"
  by (cases err) auto

lemma step_ignores_shutdown_err:
  "step (env\<lparr>shutdownComputeSystem_err := x\<rparr>) s i = step env s i"
  by (cases i) auto

lemma run_ignores_shutdown_err:
  "foldl (step (env\<lparr>shutdownComputeSystem_err := x\<rparr>)) s sched = foldl (step env) s sched"
  by (induction sched arbitrary: s) (simp_all add: step_ignores_shutdown_err)

lemma parts_ignore_shutdown_err:
  "wait_for_exit (env\<lparr>shutdownComputeSystem_err := x\<rparr>) ctr pid = wait_for_exit env ctr pid"
  "update_pending (env\<lparr>shutdownComputeSystem_err := x\<rparr>) ctr si = update_pending env ctr si"
  "restart_decision (env\<lparr>shutdownComputeSystem_err := x\<rparr>) ctr ec si
     = restart_decision env ctr ec si"
  by (auto simp: wait_for_exit_def update_pending_def restart_decision_def Let_def
      split: option.splits prod.splits)

lemma shutdown_whitelisted:
  "shutdownComputeSystem_err env = Some err \<Longrightarrow> \<not> calls_terminate err \<Longrightarrow>
     shutdown (env\<lparr>shutdownComputeSystem_err := None\<rparr>) ctr = shutdown env ctr"
  by (simp add: shutdown_def Let_def)

lemma head_whitelisted:
  assumes "shutdownComputeSystem_err env = Some err" and "\<not> calls_terminate err"
  shows "waitExit_head (env\<lparr>shutdownComputeSystem_err := None\<rparr>) ctr pid name isFirst
           = waitExit_head env ctr pid name isFirst"
  unfolding waitExit_head_def parts_ignore_shutdown_err shutdown_whitelisted [OF assms]
  by simp

text \<open>
  C5. For the init process, when the shutdown fails with an error that is not a
  \<^verbatim>\<open>HcsError\<close> carrying \<^verbatim>\<open>ERROR_SHUTDOWN_IN_PROGRESS\<close>, \<^verbatim>\<open>ErrorBadPathname\<close> or
  \<^verbatim>\<open>ERROR_PATH_NOT_FOUND\<close>, every run calls \<^verbatim>\<open>TerminateComputeSystem\<close>, no notification
  precedes that call and a notification follows it. When the shutdown fails with one of
  these three errors, no run calls \<^verbatim>\<open>TerminateComputeSystem\<close>, and every run is the run
  that follows a successful shutdown: the same schedules, the same calls, the same state.
\<close>

theorem shutdown_fallback:
  assumes "sched \<in> waitExit_schedules env ctr pid name True"
    and "shutdownComputeSystem_err env = Some err"
  shows "(err \<notin> {HcsError ERROR_SHUTDOWN_IN_PROGRESS, HcsError ErrorBadPathname,
                  HcsError ERROR_PATH_NOT_FOUND} \<longrightarrow>
            (\<exists>pre post.
               events (waitExit env ctr pid name True sched) =
                 pre @ TerminateComputeSystem (containerID ctr) (Timeout 300000) ''waitExit'' # post
             \<and> (\<forall>e \<in> set pre. \<not> is_StateChanged e)
             \<and> (\<exists>e \<in> set post. is_StateChanged e)))
       \<and> (err \<in> {HcsError ERROR_SHUTDOWN_IN_PROGRESS, HcsError ErrorBadPathname,
                  HcsError ERROR_PATH_NOT_FOUND} \<longrightarrow>
            (\<forall>e \<in> set (events (waitExit env ctr pid name True sched)). \<not> is_Terminate e)
          \<and> sched \<in> waitExit_schedules (env\<lparr>shutdownComputeSystem_err := None\<rparr>) ctr pid name True
          \<and> waitExit env ctr pid name True sched =
              waitExit (env\<lparr>shutdownComputeSystem_err := None\<rparr>) ctr pid name True sched)"
proof -
  let ?si = "\<lparr>State = StateExit, ExitCode = waitForProcess_exitCode env, Pid = pid,
              ProcessID = name, UpdatePending = False\<rparr>"
  obtain si2 ctr2 evs3 g where r:
    "restart_decision env ctr (waitForProcess_exitCode env) (fst (update_pending env ctr ?si))
       = (si2, ctr2, evs3, g)"
    by (metis prod_cases4)
  define s where "s = \<lparr>the_si = si2, the_ctr = ctr2, saw_exit = False,
                       events = teardown env ctr pid ?si @ evs3\<rparr>"
  have head: "waitExit_head env ctr pid name True = (s, [L226_test, L227_delete, L233_notify], g)"
    by (simp add: waitExit_head_init r s_def)
  have sched: "sched \<in> shuffles [L226_test, L227_delete, L233_notify] g"
    using assms(1) by (simp add: waitExit_schedules_def head)
  have final: "waitExit env ctr pid name True sched = foldl (step env) s sched"
    by (simp add: waitExit_def head)
  have evs3: "\<forall>e \<in> set evs3. is_ShouldRestart e \<or> is_Log e \<or> e = Go_func"
    using restart_decision_kinds [of _ env ctr "waitForProcess_exitCode env"
        "fst (update_pending env ctr ?si)"] r by simp
  have first: "\<forall>e \<in> set (wait_for_exit env ctr pid @ snd (update_pending env ctr ?si)).
                 \<not> is_StateChanged e \<and> \<not> is_Terminate e"
    using wait_for_exit_kinds [of _ env ctr pid] update_pending_kinds [of _ env ctr ?si]
    by (auto simp: after_split_def)
  show ?thesis
  proof (cases "calls_terminate err")
    case True
    have "L233_notify \<in> set sched"
      using set_shuffles [OF sched] by simp
    then obtain xs where xs: "events (foldl (step env) s sched) = events s @ xs"
      "\<exists>e \<in> set xs. is_StateChanged e"
      using run_emits_notify by blast
    have sd: "shutdown env ctr =
                [ShutdownComputeSystem (containerID ctr) (Timeout 300000) ''waitExit'',
                 TerminateComputeSystem (containerID ctr) (Timeout 300000) ''waitExit'']"
      using True assms(2) by (simp add: shutdown_def Let_def)
    have "events (waitExit env ctr pid name True sched) =
            (wait_for_exit env ctr pid @ snd (update_pending env ctr ?si)
               @ [ShutdownComputeSystem (containerID ctr) (Timeout 300000) ''waitExit''])
            @ TerminateComputeSystem (containerID ctr) (Timeout 300000) ''waitExit''
              # (evs3 @ xs)"
      unfolding final xs(1) by (simp add: s_def teardown_def sd)
    moreover have "\<forall>e \<in> set (wait_for_exit env ctr pid @ snd (update_pending env ctr ?si)
               @ [ShutdownComputeSystem (containerID ctr) (Timeout 300000) ''waitExit'']).
            \<not> is_StateChanged e"
      using first by auto
    moreover have "\<exists>e \<in> set (evs3 @ xs). is_StateChanged e"
      using xs(2) by auto
    ultimately show ?thesis
      using True calls_terminate_iff [of err] by blast
  next
    case False
    have sd: "shutdown env ctr =
                [ShutdownComputeSystem (containerID ctr) (Timeout 300000) ''waitExit'']"
      using False assms(2) by (simp add: shutdown_def Let_def)
    obtain xs where xs: "events (foldl (step env) s sched) = events s @ xs"
      "\<forall>e \<in> set xs. after_split e \<or> is_Log e"
      using run_events by blast
    have "events (waitExit env ctr pid name True sched) =
            (wait_for_exit env ctr pid @ snd (update_pending env ctr ?si))
            @ ShutdownComputeSystem (containerID ctr) (Timeout 300000) ''waitExit''
              # evs3 @ xs"
      unfolding final xs(1) by (simp add: s_def teardown_def sd)
    then have a: "\<forall>e \<in> set (events (waitExit env ctr pid name True sched)). \<not> is_Terminate e"
      using first evs3 xs(2) by (auto simp: after_split_def)
    have h: "waitExit_head (env\<lparr>shutdownComputeSystem_err := None\<rparr>) ctr pid name True
               = waitExit_head env ctr pid name True"
      using head_whitelisted [OF assms(2) False] .
    have b: "sched \<in> waitExit_schedules (env\<lparr>shutdownComputeSystem_err := None\<rparr>) ctr pid name True"
      using assms(1) by (simp add: waitExit_schedules_def h)
    have c: "waitExit env ctr pid name True sched =
               waitExit (env\<lparr>shutdownComputeSystem_err := None\<rparr>) ctr pid name True sched"
      by (simp add: waitExit_def h run_ignores_shutdown_err)
    show ?thesis
      using False calls_terminate_iff [of err] a b c by blast
  qed
qed

theorem shutdown_fallback_witness:
  "[L226_test, L227_delete, L233_notify] \<in> waitExit_schedules shutdown_hangs ctr0 7 ''init'' True
   \<and> shutdownComputeSystem_err shutdown_hangs = Some (OtherError ''timeout'')
   \<and> (\<exists>pre post.
         events (waitExit shutdown_hangs ctr0 7 ''init'' True [L226_test, L227_delete, L233_notify]) =
           pre @ TerminateComputeSystem ''c1'' (Timeout 300000) ''waitExit'' # post
       \<and> (\<forall>e \<in> set pre. \<not> is_StateChanged e)
       \<and> (\<exists>e \<in> set post. is_StateChanged e))
   \<and> [L226_test, L227_delete, L233_notify] \<in> waitExit_schedules shutdown_in_progress ctr0 7 ''init'' True
   \<and> shutdownComputeSystem_err shutdown_in_progress = Some (HcsError ERROR_SHUTDOWN_IN_PROGRESS)
   \<and> list_all (\<lambda>e. \<not> is_Terminate e)
       (events (waitExit shutdown_in_progress ctr0 7 ''init'' True
                  [L226_test, L227_delete, L233_notify]))
   \<and> waitExit shutdown_in_progress ctr0 7 ''init'' True [L226_test, L227_delete, L233_notify] =
       waitExit (shutdown_in_progress\<lparr>shutdownComputeSystem_err := None\<rparr>) ctr0 7 ''init'' True
         [L226_test, L227_delete, L233_notify]"
proof -
  have s1: "[L226_test, L227_delete, L233_notify]
              \<in> waitExit_schedules shutdown_hangs ctr0 7 ''init'' True"
    by (simp add: waitExit_schedules_def waitExit_head_def wait_for_exit_def
      update_pending_def shutdown_def Let_def restart_decision_def shutdown_hangs_def ctr0_def wenv0_def)
  have e1: "shutdownComputeSystem_err shutdown_hangs = Some (OtherError ''timeout'')"
    by (simp add: shutdown_hangs_def)
  have s2: "[L226_test, L227_delete, L233_notify]
              \<in> waitExit_schedules shutdown_in_progress ctr0 7 ''init'' True"
    by (simp add: waitExit_schedules_def waitExit_head_def wait_for_exit_def
      update_pending_def shutdown_def Let_def restart_decision_def shutdown_in_progress_def ctr0_def
      wenv0_def)
  have e2: "shutdownComputeSystem_err shutdown_in_progress
              = Some (HcsError ERROR_SHUTDOWN_IN_PROGRESS)"
    by (simp add: shutdown_in_progress_def)
  have c: "containerID ctr0 = ''c1''"
    by (simp add: ctr0_def)
  show ?thesis
    using shutdown_fallback [OF s1 e1] shutdown_fallback [OF s2 e2] s1 e1 s2 e2 c
    by (simp add: list_all_iff)
qed

text \<open>
  C7, as the code has it. In \<^verbatim>\<open>waitExit\<close> the shutdown and the termination both carry a
  timeout of five minutes. In \<^verbatim>\<open>start\<close> the termination carries one minute on the servicing
  path and \<^verbatim>\<open>TimeoutInfinite\<close> after a failed creation of the process.
\<close>

theorem timeouts:
  "(\<forall>sched \<in> waitExit_schedules env ctr pid name isFirst.
      \<forall>e \<in> set (events (waitExit env ctr pid name isFirst sched)).
        (is_Shutdown e \<or> is_Terminate e) \<longrightarrow> timeout_of e = Timeout (5 * 60 * 1000))
   \<and> (\<forall>e \<in> set (calls (start pkg senv sctr)).
        is_Terminate e \<longrightarrow>
          timeout_of e = (if ServicingOption True \<in> set (options sctr)
                          then Timeout (1 * 60 * 1000) else TimeoutInfinite))"
proof -
  have a: "(is_Shutdown e \<or> is_Terminate e) \<longrightarrow> timeout_of e = Timeout (5 * 60 * 1000)"
    if "e \<in> set (events (waitExit env ctr pid name isFirst sched))" for e sched
  proof -
    obtain s rest g where head: "waitExit_head env ctr pid name isFirst = (s, rest, g)"
      by (metis prod_cases3)
    obtain xs where xs: "events (foldl (step env) s sched) = events s @ xs"
      "\<forall>e \<in> set xs. after_split e \<or> is_Log e"
      using run_events by blast
    have "e \<in> set (events s) \<or> e \<in> set xs"
      using that by (auto simp: waitExit_def head xs)
    then show ?thesis
    proof
      assume "e \<in> set (events s)"
      then show ?thesis
        using head_kinds [of e env ctr pid name isFirst] by (simp add: head)
    next
      assume "e \<in> set xs"
      then show ?thesis
        using xs(2) by (auto simp: after_split_def)
    qed
  qed
  have b1: "\<forall>e \<in> set (calls (start pkg senv sctr)).
              is_Terminate e \<longrightarrow> timeout_of e = Timeout (1 * 60 * 1000)"
    if "ServicingOption True \<in> set (options sctr)"
    using that
    by (cases "startComputeSystem_err senv"; cases "shutdown_err senv"; cases "terminate_err senv")
      (simp_all add: start_def servicing_loop_Some servicing_def)
  have b2: "\<forall>e \<in> set (calls (start pkg senv sctr)).
              is_Terminate e \<longrightarrow> timeout_of e = TimeoutInfinite"
    if "ServicingOption True \<notin> set (options sctr)"
    using that
    by (cases "startComputeSystem_err senv"; cases "create_err senv";
        cases "attachStreams_err senv"; cases "terminate_err senv")
      (simp_all add: start_def servicing_loop_None start_process_def Let_def)
  have b: "is_Terminate e \<longrightarrow>
             timeout_of e = (if ServicingOption True \<in> set (options sctr)
                             then Timeout (1 * 60 * 1000) else TimeoutInfinite)"
    if "e \<in> set (calls (start pkg senv sctr))" for e
    using that b1 b2 by (cases "ServicingOption True \<in> set (options sctr)") simp_all
  show ?thesis using a b by blast
qed

theorem timeouts_witness:
  "[L226_test, L227_delete, L233_notify] \<in> waitExit_schedules shutdown_hangs ctr0 7 ''init'' True
   \<and> filter (\<lambda>e. is_Shutdown e \<or> is_Terminate e)
       (events (waitExit shutdown_hangs ctr0 7 ''init'' True [L226_test, L227_delete, L233_notify])) =
       [ShutdownComputeSystem ''c1'' (Timeout 300000) ''waitExit'',
        TerminateComputeSystem ''c1'' (Timeout 300000) ''waitExit'']
   \<and> list_all (\<lambda>e. (is_Shutdown e \<or> is_Terminate e) \<longrightarrow> timeout_of e = Timeout 300000)
       (events (waitExit shutdown_hangs ctr0 7 ''init'' True
                  [L226_test, L227_delete, L233_notify]))
   \<and> list_all (\<lambda>e. is_Terminate e \<longrightarrow> timeout_of e = TimeoutInfinite)
       (calls (start pkg0 create_fails ctr0))"
proof -
  have sched: "[L226_test, L227_delete, L233_notify]
                 \<in> waitExit_schedules shutdown_hangs ctr0 7 ''init'' True"
    by (simp add: waitExit_schedules_def waitExit_head_def wait_for_exit_def
      update_pending_def shutdown_def Let_def restart_decision_def shutdown_hangs_def ctr0_def wenv0_def)
  have calls: "filter (\<lambda>e. is_Shutdown e \<or> is_Terminate e)
       (events (waitExit shutdown_hangs ctr0 7 ''init'' True [L226_test, L227_delete, L233_notify])) =
       [ShutdownComputeSystem ''c1'' (Timeout 300000) ''waitExit'',
        TerminateComputeSystem ''c1'' (Timeout 300000) ''waitExit'']"
    by (simp add: waitExit_def waitExit_head_def wait_for_exit_def
      update_pending_def shutdown_def Let_def restart_decision_def shutdown_hangs_def ctr0_def wenv0_def)
  have opts: "ServicingOption True \<notin> set (options ctr0)"
    by (simp add: ctr0_def)
  show ?thesis
    using timeouts [of shutdown_hangs ctr0 7 "''init''" True pkg0 create_fails ctr0]
      sched calls opts
    by (simp add: list_all_iff)
qed

text \<open>
  C7 as stated asks for one minute on every forced termination. The termination of
  \<^verbatim>\<open>waitExit\<close> carries five minutes and the one that follows a failed creation of the
  process carries \<^verbatim>\<open>TimeoutInfinite\<close>.
\<close>

theorem termination_timeouts_differ:
  "[L226_test, L227_delete, L233_notify] \<in> waitExit_schedules shutdown_hangs ctr0 7 ''init'' True
   \<and> filter is_Terminate
       (events (waitExit shutdown_hangs ctr0 7 ''init'' True [L226_test, L227_delete, L233_notify])) =
       [TerminateComputeSystem ''c1'' (Timeout (5 * 60 * 1000)) ''waitExit'']
   \<and> Timeout (5 * 60 * 1000) \<noteq> Timeout (1 * 60 * 1000)
   \<and> filter is_Terminate (calls (start pkg0 create_fails ctr0)) =
       [TerminateComputeSystem ''c1'' TimeoutInfinite ''CreateProcessInComputeSystem failed'']
   \<and> TimeoutInfinite \<noteq> Timeout (1 * 60 * 1000)"
  by (simp add: waitExit_schedules_def waitExit_def waitExit_head_def wait_for_exit_def
      update_pending_def shutdown_def Let_def restart_decision_def shutdown_hangs_def
      start_def start_process_def create_fails_def senv0_def ctr0_def wenv0_def)

subsection \<open>Counting notifications\<close>

lemma step_count:
  "length (filter is_StateChanged (events (step env s i))) =
     length (filter is_StateChanged (events s))
     + (if i = L233_notify \<or> i = L213_notify then 1 else 0)"
  by (cases i) (simp_all split: option.splits)

lemma run_count:
  "length (filter is_StateChanged (events (foldl (step env) s sched))) =
     length (filter is_StateChanged (events s))
     + length (filter (\<lambda>i. i = L233_notify \<or> i = L213_notify) sched)"
  by (induction sched arbitrary: s) (simp_all add: step_count)

lemma shuffles_count:
  assumes "zs \<in> shuffles xs ys"
  shows "length (filter P zs) = length (filter P xs) + length (filter P ys)"
proof -
  have "filter P zs \<in> filter P ` shuffles xs ys"
    using assms by blast
  then have "filter P zs \<in> shuffles (filter P xs) (filter P ys)"
    by (simp add: filter_shuffles)
  then show ?thesis by (rule length_shuffles)
qed

lemma shuffles_first:
  "zs \<in> shuffles xs (y # ys) \<Longrightarrow>
     \<exists>xs1 xs2 zs'. xs = xs1 @ xs2 \<and> zs = xs1 @ y # zs' \<and> zs' \<in> shuffles xs2 ys"
proof (induction xs arbitrary: zs)
  case Nil
  then show ?case by simp
next
  case (Cons x xs)
  from Cons.prems consider
    (left) zs' where "zs = x # zs'" "zs' \<in> shuffles xs (y # ys)"
  | (right) zs' where "zs = y # zs'" "zs' \<in> shuffles (x # xs) ys"
    by auto
  then show ?case
  proof cases
    case left
    then obtain xs1 xs2 zs'' where
      "xs = xs1 @ xs2" "zs' = xs1 @ y # zs''" "zs'' \<in> shuffles xs2 ys"
      using Cons.IH by blast
    then have "x # xs = (x # xs1) @ xs2 \<and> zs = (x # xs1) @ y # zs'' \<and> zs'' \<in> shuffles xs2 ys"
      using left by simp
    then show ?thesis by blast
  next
    case right
    then have "x # xs = [] @ (x # xs) \<and> zs = [] @ y # zs' \<and> zs' \<in> shuffles (x # xs) ys"
      by simp
    then show ?thesis by blast
  qed
qed

lemma step_si: "i \<noteq> L212_downgrade \<Longrightarrow> the_si (step env s i) = the_si s"
  by (cases i) simp_all

lemma step_notifications:
  "i \<noteq> L213_notify \<Longrightarrow>
     filter is_StateChanged (events (step env s i)) =
       filter is_StateChanged (events s)
       @ (if i = L233_notify then [StateChanged (containerID (the_ctr s)) (the_si s)] else [])"
  by (cases i) (simp_all split: option.splits)

text \<open>Without lines 212 and 213, every notification is the one of line 233.\<close>

lemma run_main_notifications:
  "L212_downgrade \<notin> set sched \<Longrightarrow> L213_notify \<notin> set sched \<Longrightarrow>
     filter is_StateChanged (events (foldl (step env) s sched)) =
       filter is_StateChanged (events s)
       @ replicate (length (filter (\<lambda>i. i = L233_notify) sched))
           (StateChanged (containerID (the_ctr s)) (the_si s))"
proof (induction sched arbitrary: s)
  case Nil
  then show ?case by simp
next
  case (Cons i sched)
  have i: "i \<noteq> L212_downgrade" "i \<noteq> L213_notify"
    using Cons.prems by auto
  have "filter is_StateChanged (events (foldl (step env) (step env s i) sched)) =
          filter is_StateChanged (events (step env s i))
          @ replicate (length (filter (\<lambda>i. i = L233_notify) sched))
              (StateChanged (containerID (the_ctr s)) (the_si s))"
    using Cons.IH [of "step env s i"] Cons.prems by (simp add: step_si [OF i(1)])
  then show ?case
    by (simp add: step_notifications [OF i(2)])
qed

lemma step_exit_or_restart: "exit_or_restart s \<Longrightarrow> exit_or_restart (step env s i)"
  by (cases i; cases "stateChanged_233_err env"; cases "stateChanged_213_err env")
    (simp_all add: exit_or_restart_def ball_Un)

lemma run_exit_or_restart: "exit_or_restart s \<Longrightarrow> exit_or_restart (foldl (step env) s sched)"
  by (induction sched arbitrary: s) (simp_all add: step_exit_or_restart)

lemma step_keeps_exit: "State (the_si s) = StateExit \<Longrightarrow> State (the_si (step env s i)) = StateExit"
  by (cases i) simp_all

lemma run_notifies_exit:
  "State (the_si s) = StateExit \<Longrightarrow> L213_notify \<in> set sched \<Longrightarrow>
     \<exists>xs. events (foldl (step env) s sched) = events s @ xs
        \<and> (\<exists>e \<in> set xs. is_StateChanged e \<and> State (info e) = StateExit)"
proof (induction sched arbitrary: s)
  case Nil
  then show ?case by simp
next
  case (Cons i sched)
  show ?case
  proof (cases "i = L213_notify")
    case True
    obtain ys where "events (foldl (step env) (step env s i) sched) = events (step env s i) @ ys"
      using run_events by blast
    then have "events (foldl (step env) s (i # sched))
                 = events s @ (StateChanged (containerID (the_ctr s)) (the_si s)
                     # (case stateChanged_213_err env of Some err \<Rightarrow> [Log Error] | None \<Rightarrow> []) @ ys)"
      using True by simp
    moreover have "\<exists>e \<in> set (StateChanged (containerID (the_ctr s)) (the_si s)
                     # (case stateChanged_213_err env of Some err \<Rightarrow> [Log Error] | None \<Rightarrow> []) @ ys).
                 is_StateChanged e \<and> State (info e) = StateExit"
      using Cons.prems(1) by simp
    ultimately show ?thesis by blast
  next
    case False
    then have "L213_notify \<in> set sched" using Cons.prems by simp
    then obtain ys where ys:
      "events (foldl (step env) (step env s i) sched) = events (step env s i) @ ys"
      "\<exists>e \<in> set ys. is_StateChanged e \<and> State (info e) = StateExit"
      using Cons.IH [of "step env s i"] step_keeps_exit [OF Cons.prems(1)] by blast
    obtain xs where xs: "events (step env s i) = events s @ xs"
      using step_events by blast
    have "events (foldl (step env) s (i # sched)) = events s @ (xs @ ys)"
      using xs ys by simp
    moreover have "\<exists>e \<in> set (xs @ ys). is_StateChanged e \<and> State (info e) = StateExit"
      using ys by auto
    ultimately show ?thesis by blast
  qed
qed

text \<open>In every schedule line 213 comes after line 212.\<close>

lemma downgrade_before_notify:
  assumes "zs \<in> shuffles ms (func (Some err))"
  shows "\<exists>a b. zs = a @ L212_downgrade # b \<and> L213_notify \<in> set b"
proof -
  obtain a1 m1 z1 where 1: "zs = a1 @ L208_receive (Some err) # z1"
    "z1 \<in> shuffles m1 [L209_clear, L210_delete, L212_downgrade, L213_notify, L216_log]"
  proof -
    have "zs \<in> shuffles ms (L208_receive (Some err)
            # [L209_clear, L210_delete, L212_downgrade, L213_notify, L216_log])"
      using assms by (simp add: func_def)
    from shuffles_first [OF this] show ?thesis
      using that by blast
  qed
  obtain a2 m2 z2 where 2: "z1 = a2 @ L209_clear # z2"
    "z2 \<in> shuffles m2 [L210_delete, L212_downgrade, L213_notify, L216_log]"
    using shuffles_first [OF 1(2)] by blast
  obtain a3 m3 z3 where 3: "z2 = a3 @ L210_delete # z3"
    "z3 \<in> shuffles m3 [L212_downgrade, L213_notify, L216_log]"
    using shuffles_first [OF 2(2)] by blast
  obtain a4 m4 z4 where 4: "z3 = a4 @ L212_downgrade # z4"
    "z4 \<in> shuffles m4 [L213_notify, L216_log]"
    using shuffles_first [OF 3(2)] by blast
  have "L213_notify \<in> set z4"
    using set_shuffles [OF 4(2)] by simp
  moreover have "zs = (a1 @ L208_receive (Some err) # a2 @ L209_clear # a3 @ L210_delete # a4)
                   @ L212_downgrade # z4"
    using 1 2 3 4 by simp
  ultimately show ?thesis by blast
qed

subsection \<open>Notifications and the registry\<close>

lemma head_init_summary:
  "\<exists>s. waitExit_head env ctr pid name True =
         (s, [L226_test, L227_delete, L233_notify],
          (case restart_granted env ctr of None \<Rightarrow> [] | Some w \<Rightarrow> func w))
     \<and> the_si s = \<lparr>State = (if restart_granted env ctr = None then StateExit else StateRestart),
                    ExitCode = waitForProcess_exitCode env, Pid = pid, ProcessID = name,
                    UpdatePending =
                      (getProperties_err env = None \<and> getProperties_AreUpdatesPending env)\<rparr>
     \<and> containerID (the_ctr s) = containerID ctr
     \<and> friendlyName (the_ctr s) = friendlyName ctr
     \<and> \<not> saw_exit s
     \<and> (\<forall>e \<in> set (events s). \<not> after_split e)"
proof -
  let ?si = "\<lparr>State = StateExit, ExitCode = waitForProcess_exitCode env, Pid = pid,
              ProcessID = name, UpdatePending = False\<rparr>"
  have kinds: "\<forall>e \<in> set (events (fst (waitExit_head env ctr pid name True))). \<not> after_split e"
    using head_kinds by blast
  show ?thesis
  proof (cases "restart_granted env ctr")
    case None
    obtain evs where
      "restart_decision env ctr (waitForProcess_exitCode env) (fst (update_pending env ctr ?si))
         = (fst (update_pending env ctr ?si), ctr, evs, [])"
      using restart_decision_not_granted [OF None] by blast
    then have "waitExit_head env ctr pid name True =
                 (\<lparr>the_si = fst (update_pending env ctr ?si), the_ctr = ctr, saw_exit = False,
                   events = teardown env ctr pid ?si @ evs\<rparr>,
                  [L226_test, L227_delete, L233_notify], [])"
      by (simp add: waitExit_head_init)
    then show ?thesis
      using kinds None by (simp add: update_pending_si)
  next
    case (Some w)
    have "waitExit_head env ctr pid name True =
            (\<lparr>the_si = (fst (update_pending env ctr ?si))\<lparr>State := StateRestart\<rparr>,
              the_ctr = ctr\<lparr>restarting := True\<rparr>, saw_exit = False,
              events = teardown env ctr pid ?si
                @ [Call_ShouldRestart (waitForProcess_exitCode env) False
                     (clock env - startedAt ctr), Go_func]\<rparr>,
             [L226_test, L227_delete, L233_notify], func w)"
      by (simp add: waitExit_head_init restart_decision_granted [OF Some])
    then show ?thesis
      using kinds Some by (simp add: update_pending_si)
  qed
qed

lemma no_notification_before_split:
  "\<forall>e \<in> set evs. \<not> after_split e \<Longrightarrow> filter is_StateChanged evs = []"
  by (simp add: after_split_def filter_empty_conv)

text \<open>
  C1, as the code has it. For the init process, in every run: when no restart is granted,
  one notification is sent and its state is \<^verbatim>\<open>StateExit\<close>; when a restart is granted and
  the channel yields nil, one notification is sent and its state is \<^verbatim>\<open>StateRestart\<close>; when
  a restart is granted and the channel yields an error, two notifications are sent, each
  with state \<^verbatim>\<open>StateRestart\<close> or \<^verbatim>\<open>StateExit\<close> and one of them with \<^verbatim>\<open>StateExit\<close>. What the
  wait, the property query, the shutdown and the termination return changes none of this.
\<close>

theorem notifications:
  assumes "sched \<in> waitExit_schedules env ctr pid name True"
  shows "(restart_granted env ctr = None \<longrightarrow>
            filter is_StateChanged (events (waitExit env ctr pid name True sched)) =
              [StateChanged (containerID ctr)
                 \<lparr>State = StateExit, ExitCode = waitForProcess_exitCode env, Pid = pid,
                  ProcessID = name,
                  UpdatePending =
                    (getProperties_err env = None \<and> getProperties_AreUpdatesPending env)\<rparr>])
       \<and> (restart_granted env ctr = Some None \<longrightarrow>
            filter is_StateChanged (events (waitExit env ctr pid name True sched)) =
              [StateChanged (containerID ctr)
                 \<lparr>State = StateRestart, ExitCode = waitForProcess_exitCode env, Pid = pid,
                  ProcessID = name,
                  UpdatePending =
                    (getProperties_err env = None \<and> getProperties_AreUpdatesPending env)\<rparr>])
       \<and> (\<forall>err. restart_granted env ctr = Some (Some err) \<longrightarrow>
            length (filter is_StateChanged (events (waitExit env ctr pid name True sched))) = 2
          \<and> (\<forall>e \<in> set (events (waitExit env ctr pid name True sched)).
                is_StateChanged e \<longrightarrow>
                  State (info e) = StateRestart \<or> State (info e) = StateExit)
          \<and> (\<exists>e \<in> set (events (waitExit env ctr pid name True sched)).
                is_StateChanged e \<and> State (info e) = StateExit))"
proof -
  let ?rest = "[L226_test, L227_delete, L233_notify]"
  define g where "g = (case restart_granted env ctr of None \<Rightarrow> [] | Some w \<Rightarrow> func w)"
  obtain s where head: "waitExit_head env ctr pid name True = (s, ?rest, g)"
    and si: "the_si s = \<lparr>State = (if restart_granted env ctr = None then StateExit else StateRestart),
                    ExitCode = waitForProcess_exitCode env, Pid = pid, ProcessID = name,
                    UpdatePending =
                      (getProperties_err env = None \<and> getProperties_AreUpdatesPending env)\<rparr>"
    and cid: "containerID (the_ctr s) = containerID ctr"
    and before: "\<forall>e \<in> set (events s). \<not> after_split e"
    using head_init_summary [of env ctr pid name] unfolding g_def by blast
  have sched: "sched \<in> shuffles ?rest g"
    using assms by (simp add: waitExit_schedules_def head)
  have final: "waitExit env ctr pid name True sched = foldl (step env) s sched"
    by (simp add: waitExit_def head)
  have none: "filter is_StateChanged (events s) = []"
    using no_notification_before_split [OF before] .
  have one: "filter is_StateChanged (events (foldl (step env) s sched)) =
               [StateChanged (containerID ctr) (the_si s)]"
    if g: "L212_downgrade \<notin> set g" "L213_notify \<notin> set g" "L233_notify \<notin> set g"
  proof -
    have "set sched = set ?rest \<union> set g"
      using set_shuffles [OF sched] .
    then have no: "L212_downgrade \<notin> set sched" "L213_notify \<notin> set sched"
      using g by simp_all
    have "length (filter (\<lambda>i. i = L233_notify) sched) =
            length (filter (\<lambda>i. i = L233_notify) ?rest)
            + length (filter (\<lambda>i. i = L233_notify) g)"
      using shuffles_count [OF sched] .
    moreover have "filter (\<lambda>i. i = L233_notify) g = []"
      using g(3) by (auto simp: filter_empty_conv)
    ultimately have "length (filter (\<lambda>i. i = L233_notify) sched) = 1"
      by simp
    then show ?thesis
      using run_main_notifications [OF no, of env s] by (simp add: none cid)
  qed
  have a: ?thesis if "restart_granted env ctr = None"
    using that one by (simp add: final si g_def)
  have b: ?thesis if "restart_granted env ctr = Some None"
    using that one by (simp add: final si g_def func_def)
  have c: ?thesis if err: "restart_granted env ctr = Some (Some err)" for err
  proof -
    have g: "g = func (Some err)"
      using err by (simp add: g_def)
    have "length (filter (\<lambda>i. i = L233_notify \<or> i = L213_notify) sched) =
            length (filter (\<lambda>i. i = L233_notify \<or> i = L213_notify) ?rest)
            + length (filter (\<lambda>i. i = L233_notify \<or> i = L213_notify) g)"
      using shuffles_count [OF sched] .
    then have "length (filter (\<lambda>i. i = L233_notify \<or> i = L213_notify) sched) = 2"
      by (simp add: g func_def)
    then have two: "length (filter is_StateChanged (events (foldl (step env) s sched))) = 2"
      by (simp add: run_count none)
    have "exit_or_restart s"
      using before by (simp add: exit_or_restart_def si after_split_def)
    then have states: "\<forall>e \<in> set (events (foldl (step env) s sched)).
                 is_StateChanged e \<longrightarrow> State (info e) = StateRestart \<or> State (info e) = StateExit"
      using run_exit_or_restart [of s env sched] by (simp add: exit_or_restart_def)
    obtain a b where ab: "sched = a @ L212_downgrade # b" "L213_notify \<in> set b"
      using downgrade_before_notify [of sched ?rest err] sched g by auto
    have "State (the_si (step env (foldl (step env) s a) L212_downgrade)) = StateExit"
      by simp
    then obtain xs where
      "events (foldl (step env) (step env (foldl (step env) s a) L212_downgrade) b) =
         events (step env (foldl (step env) s a) L212_downgrade) @ xs"
      "\<exists>e \<in> set xs. is_StateChanged e \<and> State (info e) = StateExit"
      using run_notifies_exit [OF _ ab(2)] by blast
    then have "\<exists>e \<in> set (events (foldl (step env) s sched)).
                 is_StateChanged e \<and> State (info e) = StateExit"
      unfolding ab(1) by auto
    then show ?thesis
      using two states err by (simp add: final)
  qed
  show ?thesis
    using a b c by (cases "restart_granted env ctr") auto
qed

theorem notifications_witness:
  "main_first (Some (OtherError ''cancelled'')) \<in> waitExit_schedules wenv0 restart_fails 7 ''init'' True
   \<and> restart_granted wenv0 restart_fails = Some (Some (OtherError ''cancelled''))
   \<and> length (filter is_StateChanged
       (events (waitExit wenv0 restart_fails 7 ''init'' True
          (main_first (Some (OtherError ''cancelled'')))))) = 2
   \<and> (\<exists>e \<in> set (events (waitExit wenv0 restart_fails 7 ''init'' True
          (main_first (Some (OtherError ''cancelled''))))).
        is_StateChanged e \<and> State (info e) = StateExit)"
proof -
  have sched: "main_first (Some (OtherError ''cancelled''))
                 \<in> waitExit_schedules wenv0 restart_fails 7 ''init'' True"
    by (simp add: waitExit_schedules_def waitExit_head_def wait_for_exit_def
      update_pending_def shutdown_def Let_def restart_decision_def func_def main_first_def
      restart_fails_def always_restart_def ctr0_def wenv0_def Cons_in_shuffles_iff)
  have granted: "restart_granted wenv0 restart_fails = Some (Some (OtherError ''cancelled''))"
    by (simp add: restart_granted_def restart_fails_def always_restart_def ctr0_def wenv0_def)
  show ?thesis
    using notifications [OF sched] granted sched by simp
qed

text \<open>
  C1 as stated asks for one notification whatever the channel yields. When the restart is
  granted and the channel yields an error, \<^verbatim>\<open>waitExit\<close> sends \<^verbatim>\<open>StateRestart\<close> and the task of
  line 207 then sends \<^verbatim>\<open>StateExit\<close>: two notifications, and no new container is created.
\<close>

theorem notified_twice:
  "main_first (Some (OtherError ''cancelled'')) \<in> waitExit_schedules wenv0 restart_fails 7 ''init'' True
   \<and> filter is_StateChanged
       (events (waitExit wenv0 restart_fails 7 ''init'' True
          (main_first (Some (OtherError ''cancelled''))))) =
       [StateChanged ''c1''
          \<lparr>State = StateRestart, ExitCode = 1, Pid = 7, ProcessID = ''init'',
           UpdatePending = False\<rparr>,
        StateChanged ''c1''
          \<lparr>State = StateExit, ExitCode = 1, Pid = 7, ProcessID = ''init'',
           UpdatePending = False\<rparr>]"
  by (simp add: waitExit_schedules_def waitExit_def waitExit_head_def wait_for_exit_def
      update_pending_def shutdown_def Let_def restart_decision_def func_def main_first_def
      restart_fails_def always_restart_def ctr0_def wenv0_def Cons_in_shuffles_iff)

text \<open>
  While \<^verbatim>\<open>si\<close> does not hold \<^verbatim>\<open>StateExit\<close>, the rest of \<^verbatim>\<open>waitExit\<close> removes nothing from
  the registry and reports no \<^verbatim>\<open>StateExit\<close>.
\<close>

lemma step_main_keeps_entry:
  assumes "i = L226_test \<or> i = L227_delete \<or> i = L233_notify"
    and "State (the_si s) \<noteq> StateExit" and "\<not> saw_exit s"
  shows "\<exists>xs. events (step env s i) = events s @ xs \<and> (\<forall>e \<in> set xs. keeps_entry e)"
    and "State (the_si (step env s i)) \<noteq> StateExit"
    and "\<not> saw_exit (step env s i)"
  using assms
  by (cases "stateChanged_233_err env"; fastforce simp: keeps_entry_def)+

lemma run_main_keeps_entry:
  "set m \<subseteq> {L226_test, L227_delete, L233_notify} \<Longrightarrow> State (the_si s) \<noteq> StateExit \<Longrightarrow>
     \<not> saw_exit s \<Longrightarrow>
     \<exists>xs. events (foldl (step env) s m) = events s @ xs
        \<and> (\<forall>e \<in> set xs. keeps_entry e)
        \<and> State (the_si (foldl (step env) s m)) \<noteq> StateExit
        \<and> \<not> saw_exit (foldl (step env) s m)"
proof (induction m arbitrary: s)
  case Nil
  then show ?case by simp
next
  case (Cons i m)
  have i: "i = L226_test \<or> i = L227_delete \<or> i = L233_notify"
    using Cons.prems(1) by simp
  obtain xs where xs: "events (step env s i) = events s @ xs" "\<forall>e \<in> set xs. keeps_entry e"
    using step_main_keeps_entry(1) [OF i Cons.prems(2,3)] by blast
  have m: "set m \<subseteq> {L226_test, L227_delete, L233_notify}"
    using Cons.prems(1) by simp
  from Cons.IH [OF m step_main_keeps_entry(2,3) [OF i Cons.prems(2,3)], of env]
  obtain ys where ys:
    "events (foldl (step env) (step env s i) m) = events (step env s i) @ ys"
    "\<forall>e \<in> set ys. keeps_entry e"
    "State (the_si (foldl (step env) (step env s i) m)) \<noteq> StateExit"
    "\<not> saw_exit (foldl (step env) (step env s i) m)"
    by blast
  have "events (foldl (step env) s (i # m)) = events s @ (xs @ ys)"
    using xs(1) ys(1) by simp
  moreover have "\<forall>e \<in> set (xs @ ys). keeps_entry e"
    using xs(2) ys(2) by auto
  ultimately show ?case
    using ys(3,4) by (metis foldl_Cons)
qed

text \<open>
  C3, as the code has it. When a restart is granted, every run is of this shape: calls
  among which the container is neither removed from the registry nor created again and
  no \<^verbatim>\<open>StateExit\<close> is reported; the receive from the channel; more calls of that kind; the
  \<^verbatim>\<open>deleteContainer\<close> of the container; the remaining calls. So the container leaves the
  registry after the channel has yielded, and before any \<^verbatim>\<open>Create\<close> and any notification
  of \<^verbatim>\<open>StateExit\<close>.
\<close>

theorem deregistered_after_receive:
  assumes "restart_granted env ctr = Some w"
    and "sched \<in> waitExit_schedules env ctr pid name True"
  shows "\<exists>pre mid post.
           events (waitExit env ctr pid name True sched) =
             pre @ Receive_wait w # mid @ deleteContainer (friendlyName ctr) # post
         \<and> (\<forall>e \<in> set (pre @ mid).
               \<not> is_delete e \<and> \<not> is_Create e
               \<and> \<not> (is_StateChanged e \<and> State (info e) = StateExit))"
proof -
  define rest where "rest = [L226_test, L227_delete, L233_notify]"
  define after where
    "after = (case w of Some err \<Rightarrow> [L212_downgrade, L213_notify, L216_log]
              | None \<Rightarrow> [L218_create])"
  have func: "func w = L208_receive w # L209_clear # L210_delete # after"
    by (simp add: func_def after_def)
  have granted: "(case restart_granted env ctr of None \<Rightarrow> [] | Some w \<Rightarrow> func w) = func w"
    "(if restart_granted env ctr = None then StateExit else StateRestart) = StateRestart"
    using assms(1) by simp_all
  obtain s where head: "waitExit_head env ctr pid name True = (s, rest, func w)"
    and si: "State (the_si s) = StateRestart"
    and fn: "friendlyName (the_ctr s) = friendlyName ctr"
    and saw: "\<not> saw_exit s"
    and before: "\<forall>e \<in> set (events s). \<not> after_split e"
  proof -
    from head_init_summary [of env ctr pid name] obtain s where
      "waitExit_head env ctr pid name True = (s, rest, func w)"
      "the_si s = \<lparr>State = StateRestart,
                    ExitCode = waitForProcess_exitCode env, Pid = pid, ProcessID = name,
                    UpdatePending =
                      (getProperties_err env = None \<and> getProperties_AreUpdatesPending env)\<rparr>"
      "friendlyName (the_ctr s) = friendlyName ctr"
      "\<not> saw_exit s"
      "\<forall>e \<in> set (events s). \<not> after_split e"
      unfolding granted rest_def by blast
    then show ?thesis
      using that [of s] by simp
  qed
  have sh: "sched \<in> shuffles rest (L208_receive w # L209_clear # L210_delete # after)"
    using assms(2) unfolding waitExit_schedules_def head func by simp
  from shuffles_first [OF sh] obtain m1 r1 z1 where 1:
    "rest = m1 @ r1" "sched = m1 @ L208_receive w # z1"
    "z1 \<in> shuffles r1 (L209_clear # L210_delete # after)"
    by blast
  from shuffles_first [OF 1(3)] obtain m2 r2 z2 where 2:
    "r1 = m2 @ r2" "z1 = m2 @ L209_clear # z2" "z2 \<in> shuffles r2 (L210_delete # after)"
    by blast
  from shuffles_first [OF 2(3)] obtain m3 r3 z3 where 3:
    "r2 = m3 @ r3" "z2 = m3 @ L210_delete # z3" "z3 \<in> shuffles r3 after"
    by blast
  have "set m1 \<subseteq> set rest" "set m2 \<subseteq> set rest" "set m3 \<subseteq> set rest"
    unfolding 1(1) 2(1) 3(1) by auto
  then have m: "set m1 \<subseteq> {L226_test, L227_delete, L233_notify}"
    "set m2 \<subseteq> {L226_test, L227_delete, L233_notify}"
    "set m3 \<subseteq> {L226_test, L227_delete, L233_notify}"
    by (simp_all add: rest_def)
  have head_keeps: "\<forall>e \<in> set (events s). keeps_entry e"
    using before by (simp add: after_split_def keeps_entry_def)
  have si0: "State (the_si s) \<noteq> StateExit"
    using si by simp
  define s1 where "s1 = foldl (step env) s m1"
  from run_main_keeps_entry [OF m(1) si0 saw, of env]
  obtain x1 where x1: "events s1 = events s @ x1" "\<forall>e \<in> set x1. keeps_entry e"
    "State (the_si s1) \<noteq> StateExit" "\<not> saw_exit s1"
    unfolding s1_def by blast
  define s2 where "s2 = step env s1 (L208_receive w)"
  have s2: "events s2 = events s1 @ [Receive_wait w]"
    "State (the_si s2) \<noteq> StateExit" "\<not> saw_exit s2"
    using x1(3,4) by (simp_all add: s2_def)
  define s3 where "s3 = foldl (step env) s2 m2"
  from run_main_keeps_entry [OF m(2) s2(2,3), of env]
  obtain x2 where x2: "events s3 = events s2 @ x2" "\<forall>e \<in> set x2. keeps_entry e"
    "State (the_si s3) \<noteq> StateExit" "\<not> saw_exit s3"
    unfolding s3_def by blast
  define s4 where "s4 = step env s3 L209_clear"
  have s4: "events s4 = events s3"
    "State (the_si s4) \<noteq> StateExit" "\<not> saw_exit s4"
    using x2(3,4) by (simp_all add: s4_def)
  define s5 where "s5 = foldl (step env) s4 m3"
  from run_main_keeps_entry [OF m(3) s4(2,3), of env]
  obtain x3 where x3: "events s5 = events s4 @ x3" "\<forall>e \<in> set x3. keeps_entry e"
    unfolding s5_def by blast
  define s6 where "s6 = step env s5 L210_delete"
  have "friendlyName (the_ctr s5) = friendlyName ctr"
    by (simp add: s5_def s4_def s3_def s2_def s1_def fn)
  then have s6: "events s6 = events s5 @ [deleteContainer (friendlyName ctr)]"
    by (simp add: s6_def)
  obtain xs where xs: "events (foldl (step env) s6 z3) = events s6 @ xs"
    using run_events by blast
  have "sched = m1 @ L208_receive w # m2 @ L209_clear # m3 @ L210_delete # z3"
    using 1(2) 2(2) 3(2) by simp
  then have "waitExit env ctr pid name True sched = foldl (step env) s6 z3"
    unfolding waitExit_def head
    by (simp add: s1_def s2_def s3_def s4_def s5_def s6_def)
  then have "events (waitExit env ctr pid name True sched) =
               (events s @ x1) @ Receive_wait w # (x2 @ x3)
                 @ deleteContainer (friendlyName ctr) # xs"
    using xs s6 x3(1) s4(1) x2(1) s2(1) x1(1) by simp
  moreover have "\<forall>e \<in> set ((events s @ x1) @ (x2 @ x3)). keeps_entry e"
    using head_keeps x1(2) x2(2) x3(2) by auto
  ultimately show ?thesis
    unfolding keeps_entry_def by blast
qed

theorem deregistered_after_receive_witness:
  "restart_granted wenv0 restart_succeeds = Some None
   \<and> main_first None \<in> waitExit_schedules wenv0 restart_succeeds 7 ''init'' True
   \<and> (\<exists>pre mid post.
         events (waitExit wenv0 restart_succeeds 7 ''init'' True (main_first None))
           = pre @ Receive_wait None # mid @ deleteContainer ''c1'' # post
       \<and> (\<forall>e \<in> set (pre @ mid).
             \<not> is_delete e \<and> \<not> is_Create e
             \<and> \<not> (is_StateChanged e \<and> State (info e) = StateExit)))"
proof -
  have sched: "main_first None \<in> waitExit_schedules wenv0 restart_succeeds 7 ''init'' True"
    by (simp add: waitExit_schedules_def waitExit_head_def wait_for_exit_def
      update_pending_def shutdown_def Let_def restart_decision_def func_def main_first_def
      restart_succeeds_def always_restart_def ctr0_def wenv0_def Cons_in_shuffles_iff)
  have granted: "restart_granted wenv0 restart_succeeds = Some None"
    by (simp add: restart_granted_def restart_succeeds_def always_restart_def ctr0_def wenv0_def)
  have name: "friendlyName restart_succeeds = ''c1''"
    by (simp add: restart_succeeds_def ctr0_def)
  show ?thesis
    using deregistered_after_receive [OF granted sched] granted sched
    unfolding name by blast
qed

text \<open>
  C3 as stated asks for the container to leave the registry before the channel yields.
  In the run below \<^verbatim>\<open>waitExit\<close> has made its decision, started the task and notified the
  backend, and the registry is untouched until the channel has yielded.
\<close>

theorem deregistered_late:
  "main_first None \<in> waitExit_schedules wenv0 restart_succeeds 7 ''init'' True
   \<and> events (waitExit wenv0 restart_succeeds 7 ''init'' True (main_first None)) =
       [WaitForProcessInComputeSystem ''c1'' 7 TimeoutInfinite,
        GetComputeSystemProperties ''c1'' 1,
        ShutdownComputeSystem ''c1'' (Timeout 300000) ''waitExit'',
        Call_ShouldRestart 1 False 500,
        Go_func,
        StateChanged ''c1''
          \<lparr>State = StateRestart, ExitCode = 1, Pid = 7, ProcessID = ''init'',
           UpdatePending = False\<rparr>,
        Receive_wait None,
        deleteContainer ''c1'',
        Create ''c1'' (ociSpec ctr0) []]"
  by (simp add: waitExit_schedules_def waitExit_def waitExit_head_def wait_for_exit_def
      update_pending_def shutdown_def Let_def restart_decision_def func_def main_first_def
      restart_succeeds_def always_restart_def ctr0_def wenv0_def Cons_in_shuffles_iff)

end
